theory Spec2Isabelle
  imports Main "HOL-Library.Word"
begin

unbundle bit_operations_syntax

section \<open>Data model\<close>

text \<open>
  The tasking core of DART: the data-dependency resolver (hash of dependency records,
  staging lists for remote requests and releases) and the scheduler front end (thread
  pool, root task, phase counter).

  Task records are shared between the hash, successor lists, queues and threads, so they
  live in an explicit store indexed by their address; address \<open>0\<close> is the null pointer.
  The singly linked lists of the source (hash buckets, staging lists, successor lists,
  queues) own their nodes, and are lists here, head first. The two node free lists hold
  zeroed nodes only, so each is the number of nodes it holds. Every operation is one
  atomic step of the calling thread, so a mutex that is locked and unlocked again while
  the thread holds no other mutex of the same kind has no effect and is left out. The
  walk that resolves a staged remote request keeps one task's mutex while it locks the
  next; there the task mutexes the thread holds are part of the model. Calls into the
  transport are recorded in the order they are made, and so are error-level log lines
  and failed assertions.
\<close>

text \<open>Modelled from the spec: the headers that declare the task, thread, dependency and
  global pointer structures, the task states, the dependency kinds and the return codes
  are not part of the sources. The records and datatypes below have the fields and values
  the sources use and the spec lists, with the types their uses show: 64-bit phases and
  addresses, 32-bit counters that are read as signed.\<close>

type_synonym task_ptr = nat

definition DART_TASK_NULL :: task_ptr where
  "DART_TASK_NULL = 0"

datatype dart_ret = DART_OK | DART_ERR_INVAL

datatype dart_task_deptype =
  DART_DEP_IN | DART_DEP_OUT | DART_DEP_INOUT | DART_DEP_DIRECT | DART_DEP_IGNORE

datatype dart_task_state =
  DART_TASK_ROOT | DART_TASK_CREATED | DART_TASK_RUNNING | DART_TASK_TEARDOWN
  | DART_TASK_FINISHED | DART_TASK_DESTROYED

record dart_gptr =
  unitid :: int
  segid :: int
  addr_or_offs :: "64 word"

definition DART_GPTR_NULL :: dart_gptr where
  "DART_GPTR_NULL = \<lparr>unitid = 0, segid = 0, addr_or_offs = 0\<rparr>"

record dart_task_dep =
  dep_gptr :: dart_gptr
  dep_task :: task_ptr
  dep_type :: dart_task_deptype

record dart_phase_dep =
  pd_dep :: dart_task_dep
  pd_phase :: "64 word"

text \<open>A dependency record (\<open>dart_dephash_elem_t\<close>); its \<open>next\<close> pointer is the list it is in.
  The task reference is a union of a local task pointer and a remote token.\<close>

record dart_dephash_elem =
  e_task :: nat
  e_taskdep :: dart_task_dep
  e_phase :: "64 word"

record dart_task =
  t_fn :: nat
  t_data :: nat
  t_data_size :: nat
  unresolved_deps :: "32 word"
  successor :: "task_ptr list"
  parent :: task_ptr
  remote_successor :: "dart_dephash_elem list"
  num_children :: "32 word"
  t_state :: dart_task_state
  t_phase :: "64 word"
  has_ref :: bool

record dart_thread =
  thread_id :: int
  current_task :: task_ptr
  queue :: "task_ptr list"
  defered_queue :: "task_ptr list"

text \<open>Calls into the remote transport, as the resolver makes them.\<close>

datatype remote_call =
  Remote_datadep dart_task_dep task_ptr
  | Remote_direct_taskdep int task_ptr nat
  | Remote_release int nat dart_task_dep

text \<open>Messages the transport hands to the three inbound callbacks.\<close>

datatype inbound_msg =
  In_remote_task dart_phase_dep nat int
  | In_remote_direct task_ptr nat int
  | In_release_remote_dep task_ptr

text \<open>Error-level log lines, warnings and failed assertions.\<close>

datatype log_event =
  Assert_task_not_null
  | Assert_duplicate_dep task_ptr "64 word"
  | Error_remote_task_no_deps task_ptr
  | Error_negative_deps task_ptr
  | Error_remote_dep_type
  | Warn_nested_remote_dep
  | Error_init_twice
  | Error_not_initialized
  | Error_complete_not_master
  | Error_phase_not_master

record state =
  tasks :: "task_ptr \<Rightarrow> dart_task"
  local_deps :: "nat \<Rightarrow> dart_dephash_elem list"
  freelist_head :: nat
  unhandled_remote_deps :: "dart_dephash_elem list"
  deferred_remote_releases :: "dart_dephash_elem list"
  free_task_list :: nat
  parallel :: bool
  num_threads :: int
  initialized :: bool
  phase_bound :: "64 word"
  task_recycle_list :: "task_ptr list"
  task_free_list :: "task_ptr list"
  thread_pool :: "int \<Rightarrow> dart_thread"
  remote_calls :: "remote_call list"
  inbox :: "inbound_msg list"
  log :: "log_event list"

text \<open>The address of the static root task.\<close>

definition root_task :: task_ptr where
  "root_task = 1"

definition DART_DEPHASH_SIZE :: nat where
  "DART_DEPHASH_SIZE = 1024"

definition upd_task :: "task_ptr \<Rightarrow> (dart_task \<Rightarrow> dart_task) \<Rightarrow> state \<Rightarrow> state" where
  "upd_task t f s = s\<lparr>tasks := (tasks s)(t := f (tasks s t))\<rparr>"

definition upd_thread :: "int \<Rightarrow> (dart_thread \<Rightarrow> dart_thread) \<Rightarrow> state \<Rightarrow> state" where
  "upd_thread i f s = s\<lparr>thread_pool := (thread_pool s)(i := f (thread_pool s i))\<rparr>"

text \<open>Modelled from the spec: the logging and assertion macros are not part of the
  sources. An error-level log line, a warning and a failed assertion are recorded, and
  execution goes on, as the spec has it for internal consistency failures.\<close>

definition log_add :: "log_event \<Rightarrow> state \<Rightarrow> state" where
  "log_add e s = s\<lparr>log := log s @ [e]\<rparr>"

text \<open>Modelled from the spec: the transport's outbound operations (\<open>datadep\<close>,
  \<open>direct_taskdep\<close>, \<open>release\<close>) are not part of the sources; a call is recorded with its
  arguments.\<close>

definition remote_send :: "remote_call \<Rightarrow> state \<Rightarrow> state" where
  "remote_send m s = s\<lparr>remote_calls := remote_calls s @ [m]\<rparr>"

section \<open>Task lists and task queues\<close>

text \<open>\<open>dart_tasking_tasklist_prepend\<close> on the successor list of task \<open>owner\<close>: a node comes
  from the free list when it has one, from \<open>calloc\<close> otherwise. The list argument is the
  address of a task's field in every call, so its null check never fails.\<close>

definition dart_tasking_tasklist_prepend :: "task_ptr \<Rightarrow> task_ptr \<Rightarrow> state \<Rightarrow> state" where
  "dart_tasking_tasklist_prepend owner task s =
     upd_task owner (\<lambda>t. t\<lparr>successor := task # successor t\<rparr>)
       (s\<lparr>free_task_list := free_task_list s - 1\<rparr>)"

definition dart_tasking_tasklist_deallocate_elem :: "state \<Rightarrow> state" where
  "dart_tasking_tasklist_deallocate_elem s = s\<lparr>free_task_list := Suc (free_task_list s)\<rparr>"

text \<open>Modelled from the spec: the task queue's implementation is not part of the sources,
  only its header. \<open>push\<close> puts a task at the head, \<open>pop\<close> takes the head, \<open>popback\<close> the
  tail, and \<open>move\<close> prepends the source queue to the destination and empties it.\<close>

definition dart_tasking_taskqueue_push :: "task_ptr \<Rightarrow> task_ptr list \<Rightarrow> task_ptr list" where
  "dart_tasking_taskqueue_push task q = task # q"

definition dart_tasking_taskqueue_pop :: "task_ptr list \<Rightarrow> task_ptr \<times> task_ptr list" where
  "dart_tasking_taskqueue_pop q = (case q of [] \<Rightarrow> (DART_TASK_NULL, []) | t # r \<Rightarrow> (t, r))"

definition dart_tasking_taskqueue_popback :: "task_ptr list \<Rightarrow> task_ptr \<times> task_ptr list" where
  "dart_tasking_taskqueue_popback q =
     (if q = [] then (DART_TASK_NULL, []) else (last q, butlast q))"

definition dart_tasking_taskqueue_move ::
  "task_ptr list \<Rightarrow> task_ptr list \<Rightarrow> task_ptr list \<times> task_ptr list" where
  "dart_tasking_taskqueue_move dst src = (src @ dst, [])"

section \<open>Scheduler front end: thread identity and queues\<close>

text \<open>\<open>tid\<close> is the thread id stored in the calling thread's thread-specific data.\<close>

definition dart__tasking__thread_num :: "state \<Rightarrow> int \<Rightarrow> int" where
  "dart__tasking__thread_num s tid = (if initialized s then tid else 0)"

definition dart__tasking__num_threads :: "state \<Rightarrow> int" where
  "dart__tasking__num_threads s = (if initialized s then num_threads s else 1)"

definition dart__tasking__phase_bound :: "state \<Rightarrow> 64 word" where
  "dart__tasking__phase_bound s = phase_bound s"

definition set_current_task :: "int \<Rightarrow> task_ptr \<Rightarrow> state \<Rightarrow> state" where
  "set_current_task tid t s = upd_thread tid (\<lambda>th. th\<lparr>current_task := t\<rparr>) s"

definition get_current_task :: "state \<Rightarrow> int \<Rightarrow> task_ptr" where
  "get_current_task s tid = current_task (thread_pool s tid)"

definition dart__tasking__enqueue_runnable :: "int \<Rightarrow> task_ptr \<Rightarrow> state \<Rightarrow> state" where
  "dart__tasking__enqueue_runnable tid task s =
     (let n = dart__tasking__thread_num s tid in
      if t_phase (tasks s task) > phase_bound s
      then upd_thread n
             (\<lambda>th. th\<lparr>defered_queue := dart_tasking_taskqueue_push task (defered_queue th)\<rparr>) s
      else upd_thread n (\<lambda>th. th\<lparr>queue := dart_tasking_taskqueue_push task (queue th)\<rparr>) s)"

section \<open>Dependency hash\<close>

definition IS_OUT_DEP :: "dart_task_dep \<Rightarrow> bool" where
  "IS_OUT_DEP taskdep \<longleftrightarrow> dep_type taskdep = DART_DEP_OUT \<or> dep_type taskdep = DART_DEP_INOUT"

definition IS_ACTIVE_TASK :: "dart_task \<Rightarrow> bool" where
  "IS_ACTIVE_TASK task \<longleftrightarrow> t_state task = DART_TASK_RUNNING \<or> t_state task = DART_TASK_CREATED"

definition hash_gptr :: "dart_gptr \<Rightarrow> nat" where
  "hash_gptr gptr =
     (let offset = drop_bit 3 (addr_or_offs gptr) in
      unat (offset XOR drop_bit 7 offset XOR drop_bit 11 offset XOR drop_bit 17 offset)
        mod DART_DEPHASH_SIZE)"

text \<open>\<open>dephash_allocate_elem\<close>: a zeroed record from the free list or from \<open>calloc\<close>, filled
  with the task reference and the dependency; the phase stays zero.\<close>

definition dephash_allocate_elem ::
  "dart_task_dep \<Rightarrow> nat \<Rightarrow> state \<Rightarrow> dart_dephash_elem \<times> state" where
  "dephash_allocate_elem dep task s =
     (let s1 = s\<lparr>freelist_head := freelist_head s - 1\<rparr>;
          s2 = (if task = 0 then log_add Assert_task_not_null s1 else s1)
      in (\<lparr>e_task = task, e_taskdep = dep, e_phase = 0\<rparr>, s2))"

definition dephash_recycle_elem :: "state \<Rightarrow> state" where
  "dephash_recycle_elem s = s\<lparr>freelist_head := Suc (freelist_head s)\<rparr>"

definition dephash_add_local :: "dart_task_dep \<Rightarrow> task_ptr \<Rightarrow> state \<Rightarrow> state" where
  "dephash_add_local dep task s =
     (let (elem0, s1) = dephash_allocate_elem dep task s;
          elem = elem0\<lparr>e_phase := t_phase (tasks s1 task)\<rparr>;
          slot = hash_gptr (dep_gptr dep)
      in s1\<lparr>local_deps := (local_deps s1)(slot := elem # local_deps s1 slot)\<rparr>)"

definition dart_tasking_datadeps_reset :: "state \<Rightarrow> state" where
  "dart_tasking_datadeps_reset s =
     s\<lparr>freelist_head :=
         freelist_head s + sum_list (map (\<lambda>i. length (local_deps s i)) [0..<DART_DEPHASH_SIZE]),
       local_deps := (\<lambda>_. [])\<rparr>"

section \<open>Inbound remote dependency requests\<close>

definition dart_tasking_datadeps_handle_remote_task ::
  "dart_phase_dep \<Rightarrow> nat \<Rightarrow> int \<Rightarrow> state \<Rightarrow> dart_ret \<times> state" where
  "dart_tasking_datadeps_handle_remote_task rdep remote_task origin s =
     (if dep_type (pd_dep rdep) \<noteq> DART_DEP_IN
      then (DART_ERR_INVAL, log_add Error_remote_dep_type s)
      else
        let (rs0, s1) = dephash_allocate_elem (pd_dep rdep) remote_task s;
            rs = rs0\<lparr>e_taskdep := (e_taskdep rs0)\<lparr>dep_gptr :=
                       (dep_gptr (e_taskdep rs0))\<lparr>unitid := origin\<rparr>\<rparr>,
                     e_phase := pd_phase rdep\<rparr>
        in (DART_OK, s1\<lparr>unhandled_remote_deps := rs # unhandled_remote_deps s1\<rparr>))"


text \<open>The decrement of a task's counter on a remote release, with its outcomes: an error
  is logged below zero, the task is queued at zero. \<open>release_deferred_remote_releases\<close>
  and the immediate branch of \<open>dart_tasking_datadeps_release_remote_dep\<close> both have this
  code.\<close>

definition release_one_remote_dep :: "int \<Rightarrow> task_ptr \<Rightarrow> state \<Rightarrow> state" where
  "release_one_remote_dep tid task s =
     (let s1 = upd_task task (\<lambda>t. t\<lparr>unresolved_deps := unresolved_deps t - 1\<rparr>) s;
          unresolved = unresolved_deps (tasks s1 task)
      in if sint unresolved < 0 then log_add (Error_remote_task_no_deps task) s1
         else if unresolved = 0 then dart__tasking__enqueue_runnable tid task s1
         else s1)"

text \<open>The body of the loop of \<open>release_deferred_remote_releases\<close>, for one parked record.\<close>

definition release_deferred_elem :: "int \<Rightarrow> dart_dephash_elem \<Rightarrow> state \<Rightarrow> state" where
  "release_deferred_elem tid elem s =
     dephash_recycle_elem (release_one_remote_dep tid (e_task elem) s)"

definition release_deferred_remote_releases :: "int \<Rightarrow> state \<Rightarrow> state" where
  "release_deferred_remote_releases tid s =
     (fold (release_deferred_elem tid) (deferred_remote_releases s) s)
       \<lparr>deferred_remote_releases := []\<rparr>"

text \<open>Modelled from the spec: the header that declares the mutexes is not part of the
  sources. A task's mutex is a plain lock, not a recursive one: a thread that locks a
  mutex it holds itself never returns, which is \<open>None\<close>. \<open>held\<close> is the set of the tasks
  whose mutex the calling thread holds.\<close>

definition dart_mutex_lock :: "task_ptr \<Rightarrow> task_ptr set \<Rightarrow> task_ptr set option" where
  "dart_mutex_lock task held = (if task \<in> held then None else Some (insert task held))"

definition dart_mutex_unlock :: "task_ptr \<Rightarrow> task_ptr set \<Rightarrow> task_ptr set" where
  "dart_mutex_unlock task held = held - {task}"

text \<open>The bucket walk of \<open>dart_tasking_datadeps_release_unhandled_remote\<close> for one staged
  request: it returns the fulfillment candidate and the direct-dependency candidate, null
  when there is none, and the task mutexes the thread holds at the end. Every record's
  task is locked before it is looked at; the fulfillment candidate stays locked while
  the walk goes on.\<close>

fun find_candidates ::
  "state \<Rightarrow> dart_dephash_elem \<Rightarrow> dart_dephash_elem list \<Rightarrow> task_ptr \<Rightarrow> task_ptr
     \<Rightarrow> task_ptr set \<Rightarrow> (task_ptr \<times> task_ptr \<times> task_ptr set) option" where
  "find_candidates s rdep [] candidate direct_dep_candidate held =
     Some (candidate, direct_dep_candidate, held)"
| "find_candidates s rdep (local # rest) candidate direct_dep_candidate held =
     (let task = e_task local in
      case dart_mutex_lock task held of
        None \<Rightarrow> None
      | Some held1 \<Rightarrow>
          if addr_or_offs (dep_gptr (e_taskdep local)) = addr_or_offs (dep_gptr (e_taskdep rdep))
             \<and> IS_OUT_DEP (e_taskdep local) \<and> IS_ACTIVE_TASK (tasks s task)
          then
            if t_phase (tasks s task) \<ge> e_phase rdep
            then
              let held2 = dart_mutex_unlock task held1 in
              if direct_dep_candidate = DART_TASK_NULL
                 \<or> t_phase (tasks s direct_dep_candidate) > t_phase (tasks s task)
              then find_candidates s rdep rest candidate task held2
              else find_candidates s rdep rest candidate direct_dep_candidate held2
            else
              if candidate = DART_TASK_NULL \<or> t_phase (tasks s task) > t_phase (tasks s candidate)
              then find_candidates s rdep rest task direct_dep_candidate
                     (if candidate \<noteq> DART_TASK_NULL then dart_mutex_unlock candidate held1
                      else held1)
              else find_candidates s rdep rest candidate direct_dep_candidate
                     (dart_mutex_unlock task held1)
          else find_candidates s rdep rest candidate direct_dep_candidate
                 (dart_mutex_unlock task held1))"

text \<open>The body of the loop over the staged requests, for one request. The walk starts with
  no task mutex held; the mutex of the fulfillment candidate is unlocked once the request
  is on its list. \<open>None\<close>: the walk does not return.\<close>

definition release_unhandled_elem :: "dart_dephash_elem \<Rightarrow> state \<Rightarrow> state option" where
  "release_unhandled_elem rdep s =
     (let origin = unitid (dep_gptr (e_taskdep rdep));
          slot = hash_gptr (dep_gptr (e_taskdep rdep))
      in case find_candidates s rdep (local_deps s slot) DART_TASK_NULL DART_TASK_NULL {} of
           None \<Rightarrow> None
         | Some (candidate, direct_dep_candidate, held) \<Rightarrow>
             let s1 = (if direct_dep_candidate \<noteq> DART_TASK_NULL
                       then upd_task direct_dep_candidate
                              (\<lambda>t. t\<lparr>unresolved_deps := unresolved_deps t + 1\<rparr>)
                              (remote_send
                                 (Remote_direct_taskdep origin direct_dep_candidate (e_task rdep)) s)
                       else s)
             in Some (if candidate \<noteq> DART_TASK_NULL
                      then upd_task candidate
                             (\<lambda>t. t\<lparr>remote_successor := rdep # remote_successor t\<rparr>) s1
                      else dephash_recycle_elem
                             (remote_send
                                (Remote_release origin (e_task rdep) (e_taskdep rdep)) s1)))"

fun release_unhandled_loop :: "dart_dephash_elem list \<Rightarrow> state \<Rightarrow> state option" where
  "release_unhandled_loop [] s = Some s"
| "release_unhandled_loop (rdep # next) s =
     (case release_unhandled_elem rdep s of
        None \<Rightarrow> None
      | Some s1 \<Rightarrow> release_unhandled_loop next s1)"

definition dart_tasking_datadeps_release_unhandled_remote ::
  "int \<Rightarrow> state \<Rightarrow> (dart_ret \<times> state) option" where
  "dart_tasking_datadeps_release_unhandled_remote tid s =
     (case release_unhandled_loop (unhandled_remote_deps s) s of
        None \<Rightarrow> None
      | Some s1 \<Rightarrow>
          Some (DART_OK,
                release_deferred_remote_releases tid (s1\<lparr>unhandled_remote_deps := []\<rparr>)))"

section \<open>Local dependencies of a new task\<close>

text \<open>Modelled from the spec: the transport's \<open>remote_datadep\<close> is not part of the sources;
  the call is recorded.\<close>

definition dart_tasking_remote_datadep :: "dart_task_dep \<Rightarrow> task_ptr \<Rightarrow> state \<Rightarrow> state" where
  "dart_tasking_remote_datadep dep task s = remote_send (Remote_datadep dep task) s"

text \<open>The walk over one bucket in \<open>dart_tasking_datadeps_handle_task\<close>, newest record
  first, up to the first record that writes the region of \<open>dep\<close>.\<close>

fun handle_task_bucket ::
  "task_ptr \<Rightarrow> dart_task_dep \<Rightarrow> dart_dephash_elem list \<Rightarrow> state \<Rightarrow> state" where
  "handle_task_bucket task dep [] s = s"
| "handle_task_bucket task dep (elem # rest) s =
     (let s1 = (if addr_or_offs (dep_gptr (e_taskdep elem)) = addr_or_offs (dep_gptr dep)
                   \<and> e_task elem = task
                then log_add (Assert_duplicate_dep task (addr_or_offs (dep_gptr dep))) s
                else s)
      in if addr_or_offs (dep_gptr (e_taskdep elem)) = addr_or_offs (dep_gptr dep)
         then
           let s2 = (if t_state (tasks s1 (e_task elem)) \<noteq> DART_TASK_FINISHED
                        \<and> (IS_OUT_DEP dep
                             \<or> (dep_type dep = DART_DEP_IN \<and> IS_OUT_DEP (e_taskdep elem)))
                     then dart_tasking_tasklist_prepend (e_task elem) task
                            (upd_task task
                               (\<lambda>t. t\<lparr>unresolved_deps := unresolved_deps t + 1\<rparr>) s1)
                     else s1)
           in if IS_OUT_DEP (e_taskdep elem) then s2 else handle_task_bucket task dep rest s2
         else handle_task_bucket task dep rest s1)"

text \<open>One iteration of the loop over the declared dependencies. \<open>myid\<close> is the unit id of
  this participant and \<open>gptr_getoffset\<close> the translation of a global pointer to its
  absolute address, both supplied by the runtime underneath.\<close>

definition handle_task_dep ::
  "int \<Rightarrow> (dart_gptr \<Rightarrow> 64 word) \<Rightarrow> task_ptr \<Rightarrow> dart_task_dep \<Rightarrow> state \<Rightarrow> state" where
  "handle_task_dep myid gptr_getoffset task dep0 s =
     (if dep_type dep0 = DART_DEP_IGNORE then s
      else
        let dep = (if dep_type dep0 \<noteq> DART_DEP_DIRECT
                   then dep0\<lparr>dep_gptr := (dep_gptr dep0)\<lparr>addr_or_offs :=
                               gptr_getoffset (dep_gptr dep0)\<rparr>\<rparr>
                   else dep0);
            slot = hash_gptr (dep_gptr dep)
        in if dep_type dep = DART_DEP_DIRECT
           then
             let deptask = dep_task dep in
             if deptask \<noteq> DART_TASK_NULL
             then
               if t_state (tasks s deptask) \<noteq> DART_TASK_FINISHED
               then upd_task task (\<lambda>t. t\<lparr>unresolved_deps := unresolved_deps t + 1\<rparr>)
                      (dart_tasking_tasklist_prepend deptask task s)
               else s
             else s
           else if unitid (dep_gptr dep) \<noteq> myid
           then
             if t_state (tasks s (parent (tasks s task))) = DART_TASK_ROOT
             then dart_tasking_remote_datadep dep task s
             else log_add Warn_nested_remote_dep s
           else dephash_add_local dep task
                  (handle_task_bucket task dep (local_deps s slot) s))"

definition dart_tasking_datadeps_handle_task ::
  "int \<Rightarrow> (dart_gptr \<Rightarrow> 64 word) \<Rightarrow> task_ptr \<Rightarrow> dart_task_dep list \<Rightarrow> state
     \<Rightarrow> dart_ret \<times> state" where
  "dart_tasking_datadeps_handle_task myid gptr_getoffset task deps s =
     (DART_OK, fold (handle_task_dep myid gptr_getoffset task) deps s)"

section \<open>Remote direct dependencies and releases\<close>

definition dart_tasking_datadeps_handle_remote_direct ::
  "task_ptr \<Rightarrow> nat \<Rightarrow> int \<Rightarrow> state \<Rightarrow> dart_ret \<times> state" where
  "dart_tasking_datadeps_handle_remote_direct local_task remote_task origin s =
     (let dep = \<lparr>dep_gptr = DART_GPTR_NULL\<lparr>unitid := origin\<rparr>, dep_task = 0,
                 dep_type = DART_DEP_DIRECT\<rparr>
      in if t_state (tasks s local_task) \<noteq> DART_TASK_FINISHED
         then
           let (rs, s1) = dephash_allocate_elem dep remote_task s
           in (DART_OK,
               upd_task local_task (\<lambda>t. t\<lparr>remote_successor := rs # remote_successor t\<rparr>) s1)
         else (DART_OK, remote_send (Remote_release origin remote_task dep) s))"

definition release_remote_dependencies :: "task_ptr \<Rightarrow> state \<Rightarrow> dart_ret \<times> state" where
  "release_remote_dependencies task s =
     (let s1 = fold (\<lambda>tmp s'. dephash_recycle_elem
                       (remote_send
                          (Remote_release (unitid (dep_gptr (e_taskdep tmp))) (e_task tmp)
                             (e_taskdep tmp)) s'))
                 (remote_successor (tasks s task)) s
      in (DART_OK, upd_task task (\<lambda>t. t\<lparr>remote_successor := []\<rparr>) s1))"

text \<open>The body of the loop over the local successors in
  \<open>dart_tasking_datadeps_release_local_task\<close>, for the node holding \<open>succ\<close>.\<close>

definition release_local_successor :: "int \<Rightarrow> task_ptr \<Rightarrow> state \<Rightarrow> state" where
  "release_local_successor tid succ s =
     (let s1 = upd_task succ (\<lambda>t. t\<lparr>unresolved_deps := unresolved_deps t - 1\<rparr>) s;
          unresolved = unresolved_deps (tasks s1 succ);
          s2 = (if sint unresolved < 0 then log_add (Error_negative_deps succ) s1
                else if unresolved = 0 then dart__tasking__enqueue_runnable tid succ s1
                else s1)
      in dart_tasking_tasklist_deallocate_elem s2)"

text \<open>The source walks the nodes of \<open>task->successor\<close> and frees each, but does not assign
  the field itself: it keeps its value, and the nodes it names are on the free list.\<close>

definition dart_tasking_datadeps_release_local_task ::
  "int \<Rightarrow> task_ptr \<Rightarrow> state \<Rightarrow> dart_ret \<times> state" where
  "dart_tasking_datadeps_release_local_task tid task s =
     (let s1 = snd (release_remote_dependencies task s)
      in (DART_OK, fold (release_local_successor tid) (successor (tasks s1 task)) s1))"

definition dart_tasking_datadeps_release_remote_dep ::
  "int \<Rightarrow> task_ptr \<Rightarrow> state \<Rightarrow> dart_ret \<times> state" where
  "dart_tasking_datadeps_release_remote_dep tid local_task s =
     (if t_phase (tasks s local_task) > dart__tasking__phase_bound s
      then
        let dep = \<lparr>dep_gptr = DART_GPTR_NULL, dep_task = 0, dep_type = DART_DEP_DIRECT\<rparr>;
            (dr, s1) = dephash_allocate_elem dep local_task s
        in (DART_OK, s1\<lparr>deferred_remote_releases := dr # deferred_remote_releases s1\<rparr>)
      else (DART_OK, release_one_remote_dep tid local_task s))"

definition dart_tasking_datadeps_end_phase :: "64 word \<Rightarrow> state \<Rightarrow> dart_ret \<times> state" where
  "dart_tasking_datadeps_end_phase phase s = (DART_OK, s)"

text \<open>Modelled from the spec: the transport is not part of the sources. Its progress
  functions hand every pending inbound message to the callback the spec names for it;
  the blocking variant does so until none is left.\<close>

definition deliver :: "int \<Rightarrow> inbound_msg \<Rightarrow> state \<Rightarrow> state" where
  "deliver tid m s =
     (case m of
        In_remote_task rdep remote_task origin \<Rightarrow>
          snd (dart_tasking_datadeps_handle_remote_task rdep remote_task origin s)
      | In_remote_direct local_task remote_task origin \<Rightarrow>
          snd (dart_tasking_datadeps_handle_remote_direct local_task remote_task origin s)
      | In_release_remote_dep local_task \<Rightarrow>
          snd (dart_tasking_datadeps_release_remote_dep tid local_task s))"

definition dart_tasking_remote_progress :: "int \<Rightarrow> state \<Rightarrow> state" where
  "dart_tasking_remote_progress tid s = fold (deliver tid) (inbox s) (s\<lparr>inbox := []\<rparr>)"

definition dart_tasking_remote_progress_blocking :: "int \<Rightarrow> state \<Rightarrow> state" where
  "dart_tasking_remote_progress_blocking tid s = dart_tasking_remote_progress tid s"


section \<open>Task executor\<close>

text \<open>The stealing loop of \<open>next_task\<close>: \<open>i\<close> runs round-robin from the right neighbour
  until it is back at the thread's own id \<open>me\<close>. The index takes every value below
  \<open>num_threads\<close> within \<open>num_threads\<close> steps, so a loop that has not come back by then
  never does: \<open>None\<close>.\<close>

fun steal_task :: "nat \<Rightarrow> int \<Rightarrow> int \<Rightarrow> state \<Rightarrow> (task_ptr \<times> state) option" where
  "steal_task k i me s =
     (if i = me then Some (DART_TASK_NULL, s)
      else case k of
        0 \<Rightarrow> None
      | Suc k' \<Rightarrow>
          let (task, q) = dart_tasking_taskqueue_popback (queue (thread_pool s i));
              s1 = upd_thread i (\<lambda>th. th\<lparr>queue := q\<rparr>) s
          in if task \<noteq> DART_TASK_NULL then Some (task, s1)
             else steal_task k' ((i + 1) mod num_threads s1) me s1)"

text \<open>\<open>thread\<close> is the index of the thread's entry in the pool.\<close>

definition next_task :: "int \<Rightarrow> state \<Rightarrow> (task_ptr \<times> state) option" where
  "next_task thread s =
     (let (task, q) = dart_tasking_taskqueue_pop (queue (thread_pool s thread));
          s1 = upd_thread thread (\<lambda>th. th\<lparr>queue := q\<rparr>) s
      in if task = DART_TASK_NULL
         then
           if num_threads s1 \<le> 0 then None
           else
             let me = thread_id (thread_pool s1 thread)
             in steal_task (nat (num_threads s1)) ((me + 1) mod num_threads s1) me s1
         else Some (task, s1))"

definition destroy_task :: "task_ptr \<Rightarrow> state \<Rightarrow> state" where
  "destroy_task task s =
     (let s1 = upd_task task
                 (\<lambda>t. t\<lparr>t_data := 0, t_data_size := 0, t_fn := 0, parent := DART_TASK_NULL,
                        t_phase := 0, remote_successor := [], successor := [],
                        t_state := DART_TASK_DESTROYED, has_ref := False\<rparr>) s
      in s1\<lparr>task_recycle_list := task # task_recycle_list s1\<rparr>)"

text \<open>The part of \<open>dart__tasking__task_complete\<close> that only the root task runs before it
  starts to process tasks: serve the transport, resolve the staged remote requests,
  admit the root's phase and splice the deferred queue into the runnable queue. It does
  not return when the resolution of the staged requests does not.\<close>

definition task_complete_admit :: "int \<Rightarrow> int \<Rightarrow> state \<Rightarrow> state option" where
  "task_complete_admit tid thread s =
     (let s1 = dart_tasking_remote_progress_blocking tid s
      in case dart_tasking_datadeps_release_unhandled_remote tid s1 of
           None \<Rightarrow> None
         | Some (r, s2) \<Rightarrow>
             let s3 = s2\<lparr>phase_bound :=
                          t_phase (tasks s2 (current_task (thread_pool s2 thread)))\<rparr>
             in Some (upd_thread thread
                        (\<lambda>th. let (dst, src) =
                                    dart_tasking_taskqueue_move (queue th) (defered_queue th)
                              in th\<lparr>queue := dst, defered_queue := src\<rparr>) s3))"

text \<open>The part that only the root task runs once it has no children left.\<close>

definition task_complete_cleanup :: "state \<Rightarrow> state" where
  "task_complete_cleanup s =
     (let s1 = dart_tasking_datadeps_reset s
      in s1\<lparr>task_free_list := task_recycle_list s1, task_recycle_list := []\<rparr>)"

text \<open>A task's function is arbitrary code of the application: \<open>run_fn fn data tid\<close> is its
  effect on the state when thread \<open>tid\<close> calls it, \<open>None\<close> when it does not return.
  The loops that run tasks until a counter or a state changes take fuel, one unit for
  each task they pick up; \<open>None\<close> is a loop that has not ended when the fuel is spent.\<close>

fun dart__tasking__task_complete ::
  "(nat \<Rightarrow> nat \<Rightarrow> int \<Rightarrow> state \<Rightarrow> state option) \<Rightarrow> nat \<Rightarrow> int \<Rightarrow> state
     \<Rightarrow> (dart_ret \<times> state) option"
and task_complete_loop ::
  "(nat \<Rightarrow> nat \<Rightarrow> int \<Rightarrow> state \<Rightarrow> state option) \<Rightarrow> nat \<Rightarrow> int \<Rightarrow> int \<Rightarrow> task_ptr \<Rightarrow> state
     \<Rightarrow> state option"
and handle_task ::
  "(nat \<Rightarrow> nat \<Rightarrow> int \<Rightarrow> state \<Rightarrow> state option) \<Rightarrow> nat \<Rightarrow> int \<Rightarrow> task_ptr \<Rightarrow> state
     \<Rightarrow> state option"
where
  "dart__tasking__task_complete run_fn fuel tid s =
     (let thread = dart__tasking__thread_num s tid in
      if current_task (thread_pool s thread) = root_task
         \<and> thread_id (thread_pool s thread) \<noteq> 0
      then Some (DART_ERR_INVAL, log_add Error_complete_not_master s)
      else
        case (if current_task (thread_pool s thread) = root_task
              then task_complete_admit tid thread s else Some s) of
          None \<Rightarrow> None
        | Some s1 \<Rightarrow>
            (case task_complete_loop run_fn fuel tid thread (get_current_task s1 tid) s1 of
               None \<Rightarrow> None
             | Some s2 \<Rightarrow>
                 Some (DART_OK,
                       if current_task (thread_pool s2 thread) = root_task
                       then task_complete_cleanup s2 else s2)))"
| "task_complete_loop run_fn 0 tid thread task s =
     (if 0 < sint (num_children (tasks s task)) then None else Some s)"
| "task_complete_loop run_fn (Suc fuel) tid thread task s =
     (if 0 < sint (num_children (tasks s task))
      then
        case next_task thread (dart_tasking_remote_progress tid s) of
          None \<Rightarrow> None
        | Some (t, s1) \<Rightarrow>
            (case handle_task run_fn fuel tid t s1 of
               None \<Rightarrow> None
             | Some s2 \<Rightarrow> task_complete_loop run_fn fuel tid thread task s2)
      else Some s)"
| "handle_task run_fn fuel tid task s =
     (if task = DART_TASK_NULL then Some s
      else
        let current = get_current_task s tid;
            s1 = set_current_task tid task s;
            fn = t_fn (tasks s1 task);
            data = t_data (tasks s1 task);
            s2 = upd_task task (\<lambda>t. t\<lparr>t_state := DART_TASK_RUNNING\<rparr>) s1
        in case run_fn fn data tid s2 of
             None \<Rightarrow> None
           | Some s3 \<Rightarrow>
               (case dart__tasking__task_complete run_fn fuel tid s3 of
                  None \<Rightarrow> None
                | Some (r, s4) \<Rightarrow>
                    let s5 = upd_task task (\<lambda>t. t\<lparr>t_state := DART_TASK_TEARDOWN\<rparr>) s4;
                        s6 = snd (dart_tasking_datadeps_release_local_task tid task s5);
                        s7 = upd_task task (\<lambda>t. t\<lparr>t_state := DART_TASK_FINISHED\<rparr>) s6;
                        s8 = upd_task (parent (tasks s7 task))
                               (\<lambda>t. t\<lparr>num_children := num_children t - 1\<rparr>) s7;
                        s9 = (if \<not> has_ref (tasks s8 task) then destroy_task task s8 else s8)
                    in Some (set_current_task tid current s9)))"

section \<open>Scheduler front end\<close>

fun task_wait_loop ::
  "(nat \<Rightarrow> nat \<Rightarrow> int \<Rightarrow> state \<Rightarrow> state option) \<Rightarrow> nat \<Rightarrow> int \<Rightarrow> int \<Rightarrow> task_ptr \<Rightarrow> state
     \<Rightarrow> state option" where
  "task_wait_loop run_fn 0 tid thread tr s =
     (if t_state (tasks s tr) \<noteq> DART_TASK_FINISHED then None else Some s)"
| "task_wait_loop run_fn (Suc fuel) tid thread tr s =
     (if t_state (tasks s tr) \<noteq> DART_TASK_FINISHED
      then
        case next_task thread (dart_tasking_remote_progress tid s) of
          None \<Rightarrow> None
        | Some (t, s1) \<Rightarrow>
            (case handle_task run_fn fuel tid t s1 of
               None \<Rightarrow> None
             | Some s2 \<Rightarrow> task_wait_loop run_fn fuel tid thread tr s2)
      else Some s)"

text \<open>\<open>tr\<close> is the pointer to the caller's handle: \<open>None\<close> is a null pointer, \<open>Some h\<close> a
  handle holding the task pointer \<open>h\<close>. The handle's value after the call is returned
  with the state.\<close>

definition dart__tasking__task_wait ::
  "(nat \<Rightarrow> nat \<Rightarrow> int \<Rightarrow> state \<Rightarrow> state option) \<Rightarrow> nat \<Rightarrow> int \<Rightarrow> task_ptr option \<Rightarrow> state
     \<Rightarrow> (dart_ret \<times> task_ptr option \<times> state) option" where
  "dart__tasking__task_wait run_fn fuel tid tr s =
     (let thread = dart__tasking__thread_num s tid in
      case tr of
        None \<Rightarrow> Some (DART_ERR_INVAL, None, s)
      | Some h \<Rightarrow>
          if h = DART_TASK_NULL \<or> t_state (tasks s h) = DART_TASK_DESTROYED
          then Some (DART_ERR_INVAL, Some h, s)
          else
            (case task_wait_loop run_fn fuel tid thread h s of
               None \<Rightarrow> None
             | Some s1 \<Rightarrow> Some (DART_OK, Some DART_TASK_NULL, destroy_task h s1)))"

definition dart__tasking__phase :: "int \<Rightarrow> state \<Rightarrow> dart_ret \<times> state" where
  "dart__tasking__phase tid s =
     (if dart__tasking__thread_num s tid \<noteq> 0
      then (DART_ERR_INVAL, log_add Error_phase_not_master s)
      else
        let s1 = dart_tasking_remote_progress tid s;
            s2 = snd (dart_tasking_datadeps_end_phase (t_phase (tasks s1 root_task)) s1)
        in (DART_OK, upd_task root_task (\<lambda>t. t\<lparr>t_phase := t_phase t + 1\<rparr>) s2))"

definition dart__tasking__current_task :: "state \<Rightarrow> int \<Rightarrow> task_ptr" where
  "dart__tasking__current_task s tid =
     current_task (thread_pool s (dart__tasking__thread_num s tid))"

section \<open>Start-up and shutdown\<close>

definition dart_tasking_datadeps_init :: "state \<Rightarrow> state" where
  "dart_tasking_datadeps_init s = s\<lparr>local_deps := (\<lambda>_. [])\<rparr>"

definition dart_thread_init :: "int \<Rightarrow> dart_thread" where
  "dart_thread_init threadnum =
     \<lparr>thread_id = threadnum, current_task = DART_TASK_NULL, queue = [], defered_queue = []\<rparr>"

definition dart_thread_finalize :: "dart_thread \<Rightarrow> dart_thread" where
  "dart_thread_finalize th =
     th\<lparr>thread_id := - 1, current_task := DART_TASK_NULL, queue := [], defered_queue := []\<rparr>"

text \<open>\<open>dart__tasking__init\<close>, with the two numbers it reads from the hardware information.
  The calling thread becomes the master, thread 0. The worker threads it creates run on
  their own; what they do is not part of this call.\<close>

definition dart__tasking__init :: "int \<Rightarrow> int \<Rightarrow> state \<Rightarrow> dart_ret \<times> state" where
  "dart__tasking__init num_cores max_threads s =
     (if initialized s then (DART_ERR_INVAL, log_add Error_init_twice s)
      else
        let n = (if num_cores > 0 then num_cores * max_threads else 2);
            s1 = s\<lparr>num_threads := n, parallel := True\<rparr>;
            s2 = dart_tasking_datadeps_init s1;
            s3 = s2\<lparr>thread_pool :=
                      (\<lambda>i. if 0 \<le> i \<and> i < n then dart_thread_init i else thread_pool s2 i)\<rparr>;
            s4 = set_current_task 0 root_task s3
        in (DART_OK, s4\<lparr>initialized := True\<rparr>))"

definition dart__tasking__fini :: "state \<Rightarrow> dart_ret \<times> state" where
  "dart__tasking__fini s =
     (if \<not> initialized s then (DART_ERR_INVAL, log_add Error_not_initialized s)
      else
        let s1 = s\<lparr>parallel := False\<rparr>;
            s2 = s1\<lparr>thread_pool :=
                      (\<lambda>i. if 1 \<le> i \<and> i < num_threads s1
                           then dart_thread_finalize (thread_pool s1 i) else thread_pool s1 i)\<rparr>
        in (DART_OK, s2\<lparr>task_recycle_list := [], initialized := False\<rparr>))"

text \<open>The state the statically initialised variables give before any call: nothing is
  initialised, every list is empty and the root task is in phase 0.\<close>

definition static_root_task :: dart_task where
  "static_root_task =
     \<lparr>t_fn = 0, t_data = 0, t_data_size = 0, unresolved_deps = 0, successor = [],
      parent = DART_TASK_NULL, remote_successor = [], num_children = 0,
      t_state = DART_TASK_ROOT, t_phase = 0, has_ref = False\<rparr>"

definition static_state :: state where
  "static_state =
     \<lparr>tasks = (\<lambda>_. static_root_task), local_deps = (\<lambda>_. []), freelist_head = 0,
      unhandled_remote_deps = [], deferred_remote_releases = [], free_task_list = 0,
      parallel = False, num_threads = 0, initialized = False, phase_bound = 0,
      task_recycle_list = [], task_free_list = [],
      thread_pool = (\<lambda>_. dart_thread_init 0),
      remote_calls = [], inbox = [], log = []\<rparr>"


section \<open>Notions used to state the properties\<close>

text \<open>A record writes the region of \<open>dep\<close>.\<close>

definition writes_region :: "dart_task_dep \<Rightarrow> dart_dephash_elem \<Rightarrow> bool" where
  "writes_region dep elem \<longleftrightarrow>
     addr_or_offs (dep_gptr (e_taskdep elem)) = addr_or_offs (dep_gptr dep)
     \<and> IS_OUT_DEP (e_taskdep elem)"

text \<open>The records a bucket walk for \<open>dep\<close> looks at: every record before the first one
  that writes the region of \<open>dep\<close>, and that one.\<close>

definition visited :: "dart_task_dep \<Rightarrow> dart_dephash_elem list \<Rightarrow> dart_dephash_elem list" where
  "visited dep bucket =
     takeWhile (\<lambda>elem. \<not> writes_region dep elem) bucket
       @ take 1 (dropWhile (\<lambda>elem. \<not> writes_region dep elem) bucket)"

text \<open>A record conflicts with the new dependency \<open>dep\<close>: same region, its task not
  finished, and one of the two is a write.\<close>

definition conflicts :: "dart_task_dep \<Rightarrow> state \<Rightarrow> dart_dephash_elem \<Rightarrow> bool" where
  "conflicts dep s elem \<longleftrightarrow>
     addr_or_offs (dep_gptr (e_taskdep elem)) = addr_or_offs (dep_gptr dep)
     \<and> t_state (tasks s (e_task elem)) \<noteq> DART_TASK_FINISHED
     \<and> (IS_OUT_DEP dep \<or> (dep_type dep = DART_DEP_IN \<and> IS_OUT_DEP (e_taskdep elem)))"

subsection \<open>A small configuration: task 2 has written region 8, task 3 is new\<close>

definition ex_write :: dart_dephash_elem where
  "ex_write = \<lparr>e_task = 2,
      e_taskdep = \<lparr>dep_gptr = \<lparr>unitid = 0, segid = 0, addr_or_offs = 8\<rparr>, dep_task = 0,
                   dep_type = DART_DEP_OUT\<rparr>, e_phase = 0\<rparr>"

definition ex_read_dep :: dart_task_dep where
  "ex_read_dep = \<lparr>dep_gptr = \<lparr>unitid = 0, segid = 0, addr_or_offs = 8\<rparr>, dep_task = 0,
                   dep_type = DART_DEP_IN\<rparr>"

definition ex_state :: state where
  "ex_state = static_state
     \<lparr>tasks := (tasks static_state)
         (2 := static_root_task\<lparr>t_state := DART_TASK_CREATED\<rparr>,
          3 := static_root_task\<lparr>t_state := DART_TASK_CREATED\<rparr>),
      local_deps := (\<lambda>_. [])(1 := [ex_write])\<rparr>"

subsection \<open>Duplicate records\<close>




subsection \<open>Releasing successors\<close>

definition counters :: "state \<Rightarrow> task_ptr \<Rightarrow> 32 word" where
  "counters s x = unresolved_deps (tasks s x)"

text \<open>The value the decrement at node \<open>i\<close> of the successor list \<open>succs\<close> returns, when
  \<open>u\<close> gives the counters before the walk: the node's task has been decremented once for
  each of its nodes up to and including this one.\<close>

definition result_at :: "(task_ptr \<Rightarrow> 32 word) \<Rightarrow> task_ptr list \<Rightarrow> nat \<Rightarrow> 32 word" where
  "result_at u succs i = u (succs ! i) - of_nat (count_list (take (Suc i) succs) (succs ! i))"

text \<open>The tasks of the nodes whose decrement returns a value with property \<open>P\<close>, in list
  order.\<close>

definition nodes_where ::
  "(32 word \<Rightarrow> bool) \<Rightarrow> (task_ptr \<Rightarrow> 32 word) \<Rightarrow> task_ptr list \<Rightarrow> task_ptr list" where
  "nodes_where P u succs =
     map (\<lambda>i. succs ! i) (filter (\<lambda>i. P (result_at u succs i)) [0..<length succs])"

definition release_message :: "dart_dephash_elem \<Rightarrow> remote_call" where
  "release_message elem =
     Remote_release (unitid (dep_gptr (e_taskdep elem))) (e_task elem) (e_taskdep elem)"

text \<open>The thread pool after the calling thread has queued the tasks \<open>zs\<close> one after the
  other.\<close>

definition enqueue_all :: "state \<Rightarrow> int \<Rightarrow> task_ptr list \<Rightarrow> int \<Rightarrow> dart_thread" where
  "enqueue_all s tid zs =
     (thread_pool s)(dart__tasking__thread_num s tid :=
        (thread_pool s (dart__tasking__thread_num s tid))
          \<lparr>queue := rev (filter (\<lambda>t. \<not> phase_bound s < t_phase (tasks s t)) zs)
                     @ queue (thread_pool s (dart__tasking__thread_num s tid)),
           defered_queue := rev (filter (\<lambda>t. phase_bound s < t_phase (tasks s t)) zs)
                     @ defered_queue (thread_pool s (dart__tasking__thread_num s tid))\<rparr>)"

subsection \<open>A task in teardown with three successor nodes and one remote successor\<close>

definition ex_release_state :: state where
  "ex_release_state = ex_state
     \<lparr>tasks := (tasks ex_state)
         (2 := static_root_task
                 \<lparr>t_state := DART_TASK_TEARDOWN, successor := [3, 4, 3],
                  remote_successor := [\<lparr>e_task = 9, e_taskdep = ex_read_dep, e_phase = 0\<rparr>]\<rparr>,
          3 := static_root_task\<lparr>t_state := DART_TASK_CREATED, unresolved_deps := 2\<rparr>,
          4 := static_root_task\<lparr>t_state := DART_TASK_CREATED, unresolved_deps := 0\<rparr>)\<rparr>"

subsection \<open>Resolving staged remote requests\<close>

text \<open>A record of the hash matches the staged request \<open>rdep\<close>: it writes the region of
  the request and its task is active.\<close>

definition is_match :: "state \<Rightarrow> dart_dephash_elem \<Rightarrow> dart_dephash_elem \<Rightarrow> bool" where
  "is_match s rdep local \<longleftrightarrow>
     addr_or_offs (dep_gptr (e_taskdep local)) = addr_or_offs (dep_gptr (e_taskdep rdep))
     \<and> IS_OUT_DEP (e_taskdep local) \<and> IS_ACTIVE_TASK (tasks s (e_task local))"

text \<open>The tasks of the matching records in the bucket of the request, newest first.\<close>

definition matching_writers :: "state \<Rightarrow> dart_dephash_elem \<Rightarrow> task_ptr list" where
  "matching_writers s rdep =
     map e_task (filter (is_match s rdep) (local_deps s (hash_gptr (dep_gptr (e_taskdep rdep)))))"

text \<open>The tasks the walk for \<open>rdep\<close> chooses from: the matching writers whose phase is at
  least the phase of the request, and those whose phase is below it.\<close>

definition direct_dep_candidates :: "state \<Rightarrow> dart_dephash_elem \<Rightarrow> task_ptr list" where
  "direct_dep_candidates s rdep =
     filter (\<lambda>t. e_phase rdep \<le> t_phase (tasks s t)) (matching_writers s rdep)"

definition fulfillment_candidates :: "state \<Rightarrow> dart_dephash_elem \<Rightarrow> task_ptr list" where
  "fulfillment_candidates s rdep =
     filter (\<lambda>t. t_phase (tasks s t) < e_phase rdep) (matching_writers s rdep)"

text \<open>The task of smallest phase in a list, and the task of largest phase; of several
  with that phase the first in the list, which in a bucket is the one whose record is
  newest. Null for the empty list.\<close>

definition smallest_phase :: "state \<Rightarrow> task_ptr list \<Rightarrow> task_ptr" where
  "smallest_phase s ts =
     (case List.find (\<lambda>t. \<forall>u \<in> set ts. t_phase (tasks s t) \<le> t_phase (tasks s u)) ts of
        None \<Rightarrow> DART_TASK_NULL
      | Some t \<Rightarrow> t)"

definition largest_phase :: "state \<Rightarrow> task_ptr list \<Rightarrow> task_ptr" where
  "largest_phase s ts =
     (case List.find (\<lambda>t. \<forall>u \<in> set ts. t_phase (tasks s u) \<le> t_phase (tasks s t)) ts of
        None \<Rightarrow> DART_TASK_NULL
      | Some t \<Rightarrow> t)"

text \<open>No task whose record in the bucket makes it eligible as fulfillment candidate of
  \<open>rdep\<close> has a further record behind that one in the bucket. The walk holds the mutex of
  its fulfillment candidate and locks the task of every record it comes to, so it can only
  return from such a bucket.\<close>

fun relock_free :: "state \<Rightarrow> dart_dephash_elem \<Rightarrow> dart_dephash_elem list \<Rightarrow> bool" where
  "relock_free s rdep [] \<longleftrightarrow> True"
| "relock_free s rdep (local # rest) \<longleftrightarrow>
     (is_match s rdep local \<and> t_phase (tasks s (e_task local)) < e_phase rdep
        \<longrightarrow> e_task local \<notin> set (map e_task rest))
     \<and> relock_free s rdep rest"

text \<open>The buckets of all staged requests are of that kind.\<close>

definition staged_relock_free :: "state \<Rightarrow> bool" where
  "staged_relock_free s \<longleftrightarrow>
     (\<forall>rdep \<in> set (unhandled_remote_deps s).
        relock_free s rdep (local_deps s (hash_gptr (dep_gptr (e_taskdep rdep)))))"

text \<open>The direct-dependency candidate the walk for \<open>rdep\<close> returns, and the staged requests
  whose walk returns the task \<open>x\<close> as direct-dependency candidate.\<close>

definition chosen_direct_dep :: "state \<Rightarrow> dart_dephash_elem \<Rightarrow> task_ptr" where
  "chosen_direct_dep s rdep =
     (case find_candidates s rdep (local_deps s (hash_gptr (dep_gptr (e_taskdep rdep))))
             DART_TASK_NULL DART_TASK_NULL {} of
        None \<Rightarrow> DART_TASK_NULL
      | Some (c, d, held) \<Rightarrow> d)"


text \<open>What the resolver and the transport callbacks leave alone: the hash, the state,
  phase and child count of every task, and the identity and current task of every
  thread.\<close>

definition same_structure :: "state \<Rightarrow> state \<Rightarrow> bool" where
  "same_structure s s' \<longleftrightarrow>
     local_deps s' = local_deps s \<and> initialized s' = initialized s
     \<and> (\<forall>x. t_state (tasks s' x) = t_state (tasks s x)
            \<and> t_phase (tasks s' x) = t_phase (tasks s x)
            \<and> num_children (tasks s' x) = num_children (tasks s x))
     \<and> (\<forall>i. current_task (thread_pool s' i) = current_task (thread_pool s i)
            \<and> thread_id (thread_pool s' i) = thread_id (thread_pool s i))"

subsection \<open>Three writers of region 8 in phases 0, 1 and 2, and a destroyed writer\<close>

definition ex_request :: dart_dephash_elem where
  "ex_request = \<lparr>e_task = 7,
      e_taskdep = \<lparr>dep_gptr = \<lparr>unitid = 5, segid = 0, addr_or_offs = 8\<rparr>, dep_task = 0,
                   dep_type = DART_DEP_IN\<rparr>, e_phase = 1\<rparr>"

definition ex_phases_state :: state where
  "ex_phases_state = static_state
     \<lparr>tasks := (tasks static_state)
         (2 := static_root_task\<lparr>t_state := DART_TASK_CREATED, t_phase := 0\<rparr>,
          3 := static_root_task\<lparr>t_state := DART_TASK_CREATED, t_phase := 1\<rparr>,
          4 := static_root_task\<lparr>t_state := DART_TASK_CREATED, t_phase := 2\<rparr>),
      local_deps := (\<lambda>_. [])(1 := [ex_write\<lparr>e_task := 4, e_phase := 2\<rparr>,
                                   ex_write\<lparr>e_task := 3, e_phase := 1\<rparr>, ex_write]),
      unhandled_remote_deps := [ex_request]\<rparr>"

definition ex_destroyed_state :: state where
  "ex_destroyed_state = static_state
     \<lparr>tasks := (tasks static_state)
         (2 := static_root_task\<lparr>t_state := DART_TASK_DESTROYED, t_phase := 0\<rparr>),
      local_deps := (\<lambda>_. [])(1 := [ex_write]),
      unhandled_remote_deps := [ex_request]\<rparr>"

text \<open>Task 2 has declared region 8264 and then written region 8; both regions hash to
  bucket 1.\<close>

definition ex_relock_state :: state where
  "ex_relock_state = static_state
     \<lparr>tasks := (tasks static_state)
         (2 := static_root_task\<lparr>t_state := DART_TASK_CREATED, t_phase := 0\<rparr>),
      local_deps := (\<lambda>_. [])
         (1 := [ex_write,
                \<lparr>e_task = 2,
                 e_taskdep = \<lparr>dep_gptr = \<lparr>unitid = 0, segid = 0, addr_or_offs = 8264\<rparr>,
                              dep_task = 0, dep_type = DART_DEP_IN\<rparr>, e_phase = 0\<rparr>]),
      unhandled_remote_deps := [ex_request]\<rparr>"

subsection \<open>Phases\<close>

text \<open>\<open>n\<close> rounds of the master thread: \<open>phase\<close>, then \<open>task_complete\<close>. The result is the
  return codes of the calls and the final state, \<open>None\<close> when a call does not return.\<close>

fun phase_rounds ::
  "(nat \<Rightarrow> nat \<Rightarrow> int \<Rightarrow> state \<Rightarrow> state option) \<Rightarrow> nat \<Rightarrow> nat \<Rightarrow> state
     \<Rightarrow> ((dart_ret \<times> dart_ret) list \<times> state) option" where
  "phase_rounds run_fn fuel 0 s = Some ([], s)"
| "phase_rounds run_fn fuel (Suc n) s =
     (let (r1, s1) = dart__tasking__phase 0 s in
      case dart__tasking__task_complete run_fn fuel 0 s1 of
        None \<Rightarrow> None
      | Some (r2, s2) \<Rightarrow>
          (case phase_rounds run_fn fuel n s2 of
             None \<Rightarrow> None
           | Some (rs, s3) \<Rightarrow> Some ((r1, r2) # rs, s3)))"

text \<open>The master thread is in the root task and the root task has no children.\<close>

definition master_idle :: "state \<Rightarrow> bool" where
  "master_idle s \<longleftrightarrow>
     current_task (thread_pool s 0) = root_task \<and> thread_id (thread_pool s 0) = 0
     \<and> num_children (tasks s root_task) = 0"

text \<open>No record of the hash belongs to a task that is created or running.\<close>

definition no_pending_tasks :: "state \<Rightarrow> bool" where
  "no_pending_tasks s \<longleftrightarrow>
     (\<forall>slot. \<forall>elem \<in> set (local_deps s slot). \<not> IS_ACTIVE_TASK (tasks s (e_task elem)))"

text \<open>An initialised pool of two threads, both in the root task.\<close>

definition ex_idle_state :: state where
  "ex_idle_state = ex_state
     \<lparr>thread_pool := (\<lambda>_. dart_thread_init 0)
         (0 := (dart_thread_init 0)\<lparr>current_task := root_task\<rparr>,
          1 := (dart_thread_init 1)\<lparr>current_task := root_task\<rparr>),
      num_threads := 2, initialized := True\<rparr>"

text \<open>The same pool when the writer of region 8 has run and has been destroyed, and a
  request for region 8 has arrived.\<close>

definition ex_quiet_state :: state where
  "ex_quiet_state = ex_idle_state
     \<lparr>tasks := (tasks ex_idle_state)
         (2 := static_root_task\<lparr>t_state := DART_TASK_DESTROYED\<rparr>,
          3 := static_root_task\<lparr>t_state := DART_TASK_DESTROYED\<rparr>),
      unhandled_remote_deps := [ex_request]\<rparr>"


section \<open>Verified properties\<close>

subsection \<open>The state combinators\<close>

lemma log_add_fields [simp]:
  "tasks (log_add e s) = tasks s"
  "local_deps (log_add e s) = local_deps s"
  "freelist_head (log_add e s) = freelist_head s"
  "unhandled_remote_deps (log_add e s) = unhandled_remote_deps s"
  "deferred_remote_releases (log_add e s) = deferred_remote_releases s"
  "free_task_list (log_add e s) = free_task_list s"
  "parallel (log_add e s) = parallel s"
  "num_threads (log_add e s) = num_threads s"
  "initialized (log_add e s) = initialized s"
  "phase_bound (log_add e s) = phase_bound s"
  "task_recycle_list (log_add e s) = task_recycle_list s"
  "task_free_list (log_add e s) = task_free_list s"
  "thread_pool (log_add e s) = thread_pool s"
  "remote_calls (log_add e s) = remote_calls s"
  "inbox (log_add e s) = inbox s"
  "log (log_add e s) = log s @ [e]"
  by (simp_all add: log_add_def)

lemma remote_send_fields [simp]:
  "tasks (remote_send m s) = tasks s"
  "local_deps (remote_send m s) = local_deps s"
  "freelist_head (remote_send m s) = freelist_head s"
  "unhandled_remote_deps (remote_send m s) = unhandled_remote_deps s"
  "deferred_remote_releases (remote_send m s) = deferred_remote_releases s"
  "free_task_list (remote_send m s) = free_task_list s"
  "parallel (remote_send m s) = parallel s"
  "num_threads (remote_send m s) = num_threads s"
  "initialized (remote_send m s) = initialized s"
  "phase_bound (remote_send m s) = phase_bound s"
  "task_recycle_list (remote_send m s) = task_recycle_list s"
  "task_free_list (remote_send m s) = task_free_list s"
  "thread_pool (remote_send m s) = thread_pool s"
  "remote_calls (remote_send m s) = remote_calls s @ [m]"
  "inbox (remote_send m s) = inbox s"
  "log (remote_send m s) = log s"
  by (simp_all add: remote_send_def)

lemma upd_task_fields [simp]:
  "tasks (upd_task t f s) = (tasks s)(t := f (tasks s t))"
  "local_deps (upd_task t f s) = local_deps s"
  "freelist_head (upd_task t f s) = freelist_head s"
  "unhandled_remote_deps (upd_task t f s) = unhandled_remote_deps s"
  "deferred_remote_releases (upd_task t f s) = deferred_remote_releases s"
  "free_task_list (upd_task t f s) = free_task_list s"
  "parallel (upd_task t f s) = parallel s"
  "num_threads (upd_task t f s) = num_threads s"
  "initialized (upd_task t f s) = initialized s"
  "phase_bound (upd_task t f s) = phase_bound s"
  "task_recycle_list (upd_task t f s) = task_recycle_list s"
  "task_free_list (upd_task t f s) = task_free_list s"
  "thread_pool (upd_task t f s) = thread_pool s"
  "remote_calls (upd_task t f s) = remote_calls s"
  "inbox (upd_task t f s) = inbox s"
  "log (upd_task t f s) = log s"
  by (simp_all add: upd_task_def)

lemma upd_thread_fields [simp]:
  "tasks (upd_thread i g s) = tasks s"
  "local_deps (upd_thread i g s) = local_deps s"
  "freelist_head (upd_thread i g s) = freelist_head s"
  "unhandled_remote_deps (upd_thread i g s) = unhandled_remote_deps s"
  "deferred_remote_releases (upd_thread i g s) = deferred_remote_releases s"
  "free_task_list (upd_thread i g s) = free_task_list s"
  "parallel (upd_thread i g s) = parallel s"
  "num_threads (upd_thread i g s) = num_threads s"
  "initialized (upd_thread i g s) = initialized s"
  "phase_bound (upd_thread i g s) = phase_bound s"
  "task_recycle_list (upd_thread i g s) = task_recycle_list s"
  "task_free_list (upd_thread i g s) = task_free_list s"
  "thread_pool (upd_thread i g s) = (thread_pool s)(i := g (thread_pool s i))"
  "remote_calls (upd_thread i g s) = remote_calls s"
  "inbox (upd_thread i g s) = inbox s"
  "log (upd_thread i g s) = log s"
  by (simp_all add: upd_thread_def)

lemma tasklist_prepend_fields [simp]:
  "tasks (dart_tasking_tasklist_prepend owner task s) =
     (tasks s)(owner := (tasks s owner)\<lparr>successor := task # successor (tasks s owner)\<rparr>)"
  "local_deps (dart_tasking_tasklist_prepend owner task s) = local_deps s"
  "freelist_head (dart_tasking_tasklist_prepend owner task s) = freelist_head s"
  "unhandled_remote_deps (dart_tasking_tasklist_prepend owner task s) = unhandled_remote_deps s"
  "deferred_remote_releases (dart_tasking_tasklist_prepend owner task s) =
     deferred_remote_releases s"
  "free_task_list (dart_tasking_tasklist_prepend owner task s) = free_task_list s - 1"
  "phase_bound (dart_tasking_tasklist_prepend owner task s) = phase_bound s"
  "initialized (dart_tasking_tasklist_prepend owner task s) = initialized s"
  "thread_pool (dart_tasking_tasklist_prepend owner task s) = thread_pool s"
  "remote_calls (dart_tasking_tasklist_prepend owner task s) = remote_calls s"
  "log (dart_tasking_tasklist_prepend owner task s) = log s"
  by (simp_all add: dart_tasking_tasklist_prepend_def)


subsection \<open>Thread identity\<close>

text \<open>Claim C10. While the tasking subsystem is not initialised, \<open>thread_num\<close> is 0 and
  \<open>num_threads\<close> is 1 for every calling thread: in any state whose \<open>initialized\<close> flag is
  clear, in the state the static initialisers give, and in the state any call of \<open>fini\<close>
  leaves.\<close>

theorem thread_num_uninitialized:
  "(\<not> initialized s \<longrightarrow>
      dart__tasking__thread_num s tid = 0 \<and> dart__tasking__num_threads s = 1)
   \<and> dart__tasking__thread_num static_state tid = 0
   \<and> dart__tasking__num_threads static_state = 1
   \<and> dart__tasking__thread_num (snd (dart__tasking__fini s)) tid = 0
   \<and> dart__tasking__num_threads (snd (dart__tasking__fini s)) = 1"
  by (simp add: dart__tasking__thread_num_def dart__tasking__num_threads_def
      static_state_def dart__tasking__fini_def Let_def)

theorem thread_num_uninitialized_witness:
  "\<not> initialized (static_state\<lparr>num_threads := 4\<rparr>)
   \<and> dart__tasking__thread_num (static_state\<lparr>num_threads := 4\<rparr>) 3 = 0
   \<and> dart__tasking__num_threads (static_state\<lparr>num_threads := 4\<rparr>) = 1"
  using thread_num_uninitialized [of "static_state\<lparr>num_threads := 4\<rparr>" 3]
  by (simp add: static_state_def)

subsection \<open>Queueing a runnable task\<close>

text \<open>Claim C5. \<open>enqueue_runnable\<close> puts the task at the head of the calling thread's
  deferred queue when the task's phase is above \<open>phase_bound\<close>, and at the head of its
  runnable queue otherwise. The thread's other queue, the queues of every other thread
  and the rest of the state stay as they are.\<close>

theorem enqueue_runnable_queue:
  fixes s :: state and tid :: int and task :: task_ptr
  defines "n \<equiv> dart__tasking__thread_num s tid"
  defines "s' \<equiv> dart__tasking__enqueue_runnable tid task s"
  shows "(t_phase (tasks s task) > phase_bound s \<longrightarrow>
            defered_queue (thread_pool s' n) = task # defered_queue (thread_pool s n)
            \<and> queue (thread_pool s' n) = queue (thread_pool s n))
         \<and> (\<not> t_phase (tasks s task) > phase_bound s \<longrightarrow>
            queue (thread_pool s' n) = task # queue (thread_pool s n)
            \<and> defered_queue (thread_pool s' n) = defered_queue (thread_pool s n))
         \<and> (\<forall>i. i \<noteq> n \<longrightarrow> thread_pool s' i = thread_pool s i)
         \<and> thread_id (thread_pool s' n) = thread_id (thread_pool s n)
         \<and> current_task (thread_pool s' n) = current_task (thread_pool s n)
         \<and> s'\<lparr>thread_pool := thread_pool s\<rparr> = s"
  by (simp add: s'_def n_def dart__tasking__enqueue_runnable_def Let_def
      dart_tasking_taskqueue_push_def upd_thread_def)

theorem enqueue_runnable_queue_witness:
  "defered_queue (thread_pool (dart__tasking__enqueue_runnable 0 3
      (ex_state\<lparr>tasks := (tasks ex_state)(3 := static_root_task\<lparr>t_phase := 2\<rparr>)\<rparr>)) 0) = [3]
   \<and> queue (thread_pool (dart__tasking__enqueue_runnable 0 3 ex_state) 0) = [3]
   \<and> thread_pool (dart__tasking__enqueue_runnable 0 3 ex_state) 1 = thread_pool ex_state 1"
proof -
  let ?s = "ex_state\<lparr>tasks := (tasks ex_state)(3 := static_root_task\<lparr>t_phase := 2\<rparr>)\<rparr>"
  have a: "t_phase (tasks ?s 3) > phase_bound ?s"
    by (simp add: ex_state_def static_state_def)
  have b: "\<not> t_phase (tasks ex_state 3) > phase_bound ex_state"
    by (simp add: ex_state_def static_state_def static_root_task_def)
  have n: "dart__tasking__thread_num ?s 0 = 0" "dart__tasking__thread_num ex_state 0 = 0"
    by (simp_all add: dart__tasking__thread_num_def)
  from enqueue_runnable_queue [of ?s 3 0] enqueue_runnable_queue [of ex_state 3 0] a b n
  show ?thesis
    by (simp add: ex_state_def static_state_def dart_thread_init_def)
qed

subsection \<open>Inbound remote requests\<close>

text \<open>Claim C4. \<open>handle_remote_task\<close> rejects a request whose dependency is not of type IN
  with \<open>ERR_INVAL\<close>: nothing is staged, and the state is as before apart from the logged
  error. For a request of type IN it takes a record, stamps it with the unit id of the
  origin and the phase of the request, pushes it on the list of unhandled remote
  dependencies and returns \<open>OK\<close>.\<close>

theorem handle_remote_task_in_only:
  fixes rdep :: dart_phase_dep and remote_task :: nat and origin :: int and s :: state
  defines "r \<equiv> dart_tasking_datadeps_handle_remote_task rdep remote_task origin s"
  shows "(dep_type (pd_dep rdep) \<noteq> DART_DEP_IN \<longrightarrow>
            fst r = DART_ERR_INVAL
            \<and> unhandled_remote_deps (snd r) = unhandled_remote_deps s
            \<and> snd r = s\<lparr>log := log s @ [Error_remote_dep_type]\<rparr>)
         \<and> (dep_type (pd_dep rdep) = DART_DEP_IN \<longrightarrow>
            fst r = DART_OK
            \<and> unhandled_remote_deps (snd r) =
                \<lparr>e_task = remote_task,
                 e_taskdep = (pd_dep rdep)\<lparr>dep_gptr := (dep_gptr (pd_dep rdep))\<lparr>unitid := origin\<rparr>\<rparr>,
                 e_phase = pd_phase rdep\<rparr> # unhandled_remote_deps s
            \<and> freelist_head (snd r) = freelist_head s - 1
            \<and> tasks (snd r) = tasks s \<and> local_deps (snd r) = local_deps s
            \<and> deferred_remote_releases (snd r) = deferred_remote_releases s
            \<and> thread_pool (snd r) = thread_pool s \<and> remote_calls (snd r) = remote_calls s
            \<and> (remote_task \<noteq> 0 \<longrightarrow> log (snd r) = log s))"
  by (simp add: r_def dart_tasking_datadeps_handle_remote_task_def dephash_allocate_elem_def
      log_add_def Let_def)

theorem handle_remote_task_in_only_witness:
  "dart_tasking_datadeps_handle_remote_task \<lparr>pd_dep = e_taskdep ex_write, pd_phase = 1\<rparr> 7 5
     ex_state = (DART_ERR_INVAL, ex_state\<lparr>log := [Error_remote_dep_type]\<rparr>)
   \<and> fst (dart_tasking_datadeps_handle_remote_task \<lparr>pd_dep = ex_read_dep, pd_phase = 1\<rparr> 7 5
        ex_state) = DART_OK
   \<and> unhandled_remote_deps
        (snd (dart_tasking_datadeps_handle_remote_task \<lparr>pd_dep = ex_read_dep, pd_phase = 1\<rparr> 7 5
           ex_state)) =
       [\<lparr>e_task = 7,
         e_taskdep = \<lparr>dep_gptr = \<lparr>unitid = 5, segid = 0, addr_or_offs = 8\<rparr>, dep_task = 0,
                      dep_type = DART_DEP_IN\<rparr>,
         e_phase = 1\<rparr>]"
proof -
  have a: "dep_type (pd_dep \<lparr>pd_dep = e_taskdep ex_write, pd_phase = 1\<rparr>) \<noteq> DART_DEP_IN"
    by (simp add: ex_write_def)
  have b: "dep_type (pd_dep \<lparr>pd_dep = ex_read_dep, pd_phase = 1\<rparr>) = DART_DEP_IN"
    by (simp add: ex_read_dep_def)
  have l: "log ex_state = []" "unhandled_remote_deps ex_state = []"
    by (simp_all add: ex_state_def static_state_def)
  from handle_remote_task_in_only [of "\<lparr>pd_dep = e_taskdep ex_write, pd_phase = 1\<rparr>" 7 5 ex_state]
    handle_remote_task_in_only [of "\<lparr>pd_dep = ex_read_dep, pd_phase = 1\<rparr>" 7 5 ex_state] a b l
  show ?thesis
    by (cases "dart_tasking_datadeps_handle_remote_task
                 \<lparr>pd_dep = e_taskdep ex_write, pd_phase = 1\<rparr> 7 5 ex_state")
       (simp add: ex_read_dep_def)
qed

subsection \<open>Local dependencies of a new task\<close>

lemma visited_simps [simp]:
  "visited dep [] = []"
  "visited dep (elem # rest) =
     (if addr_or_offs (dep_gptr (e_taskdep elem)) = addr_or_offs (dep_gptr dep)
         \<and> IS_OUT_DEP (e_taskdep elem)
      then [elem] else elem # visited dep rest)"
  by (simp_all add: visited_def writes_region_def)

lemma conflicts_cong:
  "(\<And>p. t_state (tasks s' p) = t_state (tasks s p)) \<Longrightarrow> conflicts dep s' = conflicts dep s"
  by (rule ext) (simp add: conflicts_def)

lemma conflicts_simps [simp]:
  "conflicts dep (log_add e s) = conflicts dep s"
  "conflicts dep (upd_task t (\<lambda>t. t\<lparr>unresolved_deps := g t\<rparr>) s) = conflicts dep s"
  "conflicts dep (dart_tasking_tasklist_prepend owner task s) = conflicts dep s"
  by (rule conflicts_cong; simp)+

lemma bucket_t_state:
  "t_state (tasks (handle_task_bucket task dep b s) p) = t_state (tasks s p)"
  by (induction b arbitrary: s) (simp_all add: Let_def)

lemma bucket_t_phase:
  "t_phase (tasks (handle_task_bucket task dep b s) p) = t_phase (tasks s p)"
  by (induction b arbitrary: s) (simp_all add: Let_def)

lemma bucket_unresolved:
  "unresolved_deps (tasks (handle_task_bucket task dep b s) p) =
     (if p = task
      then unresolved_deps (tasks s p) + of_nat (length (filter (conflicts dep s) (visited dep b)))
      else unresolved_deps (tasks s p))"
proof (induction b arbitrary: s p)
  case Nil
  show ?case by simp
next
  case (Cons elem rest)
  show ?case
    by (simp add: Cons.IH Let_def) (simp add: conflicts_def)
qed

lemma bucket_successor:
  "successor (tasks (handle_task_bucket task dep b s) p) =
     replicate (length (filter (\<lambda>elem. e_task elem = p \<and> conflicts dep s elem) (visited dep b))) task
       @ successor (tasks s p)"
proof (induction b arbitrary: s p)
  case Nil
  show ?case by simp
next
  case (Cons elem rest)
  show ?case
    by (simp add: Cons.IH Let_def replicate_app_Cons_same) (auto simp: conflicts_def)
qed


lemma visited_subset:
  "addr_or_offs (dep_gptr (e_taskdep w)) = addr_or_offs (dep_gptr dep) \<Longrightarrow>
   IS_OUT_DEP (e_taskdep w) \<Longrightarrow>
   set (visited dep (newer @ w # older)) \<subseteq> set (newer @ [w])"
  by (induction newer) auto

lemma bucket_local_deps [simp]:
  "local_deps (handle_task_bucket task dep b s) = local_deps s"
  by (induction b arbitrary: s) (simp_all add: Let_def)

lemma dephash_add_local_tasks [simp]:
  "tasks (dephash_add_local dep task s) = tasks s"
  by (simp add: dephash_add_local_def dephash_allocate_elem_def Let_def)

lemma dephash_add_local_local_deps:
  "local_deps (dephash_add_local dep task s) =
     (local_deps s)(hash_gptr (dep_gptr dep) :=
        \<lparr>e_task = task, e_taskdep = dep, e_phase = t_phase (tasks s task)\<rparr>
          # local_deps s (hash_gptr (dep_gptr dep)))"
  by (simp add: dephash_add_local_def dephash_allocate_elem_def Let_def)

lemma handle_task_append:
  "snd (dart_tasking_datadeps_handle_task myid g task (pre @ [dep0]) s) =
     handle_task_dep myid g task dep0 (snd (dart_tasking_datadeps_handle_task myid g task pre s))"
  by (simp add: dart_tasking_datadeps_handle_task_def)

text \<open>Claim C1. When \<open>handle_task\<close> comes to a dependency that is neither DIRECT nor
  IGNORE and whose region is on this participant, it walks the bucket of the region
  newest record first and stops after the first record that writes the region. Among the
  records it looks at, those that conflict --- same region, task not finished, and the new
  dependency is a write or it is a read and the record is a write --- each put the new
  task once on the successor list of their task and add one to the new task's
  \<open>unresolved_deps\<close>; no other record changes either. Records behind the first matching
  write are not looked at. The new record then goes to the head of the bucket.\<close>

theorem handle_task_local_dependency:
  fixes dep0 :: dart_task_dep and gptr_getoffset :: "dart_gptr \<Rightarrow> 64 word"
    and myid :: int and task :: task_ptr and pre :: "dart_task_dep list" and s :: state
  defines "dep \<equiv> dep0\<lparr>dep_gptr := (dep_gptr dep0)\<lparr>addr_or_offs := gptr_getoffset (dep_gptr dep0)\<rparr>\<rparr>"
  defines "s1 \<equiv> snd (dart_tasking_datadeps_handle_task myid gptr_getoffset task pre s)"
  defines "s2 \<equiv> snd (dart_tasking_datadeps_handle_task myid gptr_getoffset task (pre @ [dep0]) s)"
  defines "bucket \<equiv> local_deps s1 (hash_gptr (dep_gptr dep))"
  assumes local: "dep_type dep0 \<noteq> DART_DEP_DIRECT" "dep_type dep0 \<noteq> DART_DEP_IGNORE"
    "unitid (dep_gptr dep0) = myid"
  shows "unresolved_deps (tasks s2 task) =
           unresolved_deps (tasks s1 task)
             + of_nat (length (filter (conflicts dep s1) (visited dep bucket)))
         \<and> (\<forall>p. successor (tasks s2 p) =
                replicate (length (filter (\<lambda>elem. e_task elem = p \<and> conflicts dep s1 elem)
                                     (visited dep bucket))) task
                  @ successor (tasks s1 p))
         \<and> (\<forall>newer w older.
               bucket = newer @ w # older
               \<and> addr_or_offs (dep_gptr (e_taskdep w)) = addr_or_offs (dep_gptr dep)
               \<and> IS_OUT_DEP (e_taskdep w)
               \<longrightarrow> set (visited dep bucket) \<subseteq> set (newer @ [w]))
         \<and> local_deps s2 =
             (local_deps s1)(hash_gptr (dep_gptr dep) :=
                \<lparr>e_task = task, e_taskdep = dep, e_phase = t_phase (tasks s1 task)\<rparr> # bucket)"
proof -
  have step: "s2 = dephash_add_local dep task (handle_task_bucket task dep bucket s1)"
    unfolding s2_def handle_task_append s1_def [symmetric]
    using local by (simp add: handle_task_dep_def Let_def dep_def bucket_def)
  have a: "unresolved_deps (tasks s2 task) =
           unresolved_deps (tasks s1 task)
             + of_nat (length (filter (conflicts dep s1) (visited dep bucket)))"
    by (simp add: step bucket_unresolved)
  have b: "successor (tasks s2 p) =
                replicate (length (filter (\<lambda>elem. e_task elem = p \<and> conflicts dep s1 elem)
                                     (visited dep bucket))) task
                  @ successor (tasks s1 p)" for p
    by (simp add: step bucket_successor)
  have c: "set (visited dep bucket) \<subseteq> set (newer @ [w])"
    if "bucket = newer @ w # older"
      "addr_or_offs (dep_gptr (e_taskdep w)) = addr_or_offs (dep_gptr dep)"
      "IS_OUT_DEP (e_taskdep w)" for newer w older
    using that visited_subset [of w dep newer older] by simp
  have d: "local_deps s2 =
             (local_deps s1)(hash_gptr (dep_gptr dep) :=
                \<lparr>e_task = task, e_taskdep = dep, e_phase = t_phase (tasks s1 task)\<rparr> # bucket)"
    by (simp add: step dephash_add_local_local_deps bucket_t_phase) (simp add: bucket_def)
  show ?thesis using a b c d by blast
qed


lemma hash_gptr_8 [simp]: "hash_gptr \<lparr>unitid = u, segid = g, addr_or_offs = 8\<rparr> = 1"
  by (simp add: hash_gptr_def DART_DEPHASH_SIZE_def Let_def drop_bit_eq_div)

theorem handle_task_local_dependency_witness:
  "unresolved_deps (tasks (snd (dart_tasking_datadeps_handle_task 0 addr_or_offs 3
       [ex_read_dep] ex_state)) 3) = 1
   \<and> successor (tasks (snd (dart_tasking_datadeps_handle_task 0 addr_or_offs 3
       [ex_read_dep] ex_state)) 2) = [3]"
proof -
  have h: "dep_type ex_read_dep \<noteq> DART_DEP_DIRECT" "dep_type ex_read_dep \<noteq> DART_DEP_IGNORE"
    "unitid (dep_gptr ex_read_dep) = 0"
    by (simp_all add: ex_read_dep_def)
  from handle_task_local_dependency [OF h, of addr_or_offs 3 "[]" ex_state]
  show ?thesis
    by (simp add: dart_tasking_datadeps_handle_task_def [of _ _ _ "[]"] ex_read_dep_def ex_state_def
        ex_write_def static_state_def static_root_task_def conflicts_def IS_OUT_DEP_def)
qed












subsection \<open>Releasing the successors of a finished task\<close>

lemma result_at_0: "result_at u (x # rest) 0 = u x - 1"
  by (simp add: result_at_def)

lemma result_at_Suc:
  "i < length rest \<Longrightarrow> result_at u (x # rest) (Suc i) = result_at (u(x := u x - 1)) rest i"
  by (simp add: result_at_def)

lemma nodes_where_Cons:
  "nodes_where P u (x # rest) =
     (if P (u x - 1) then [x] else []) @ nodes_where P (u(x := u x - 1)) rest"
proof -
  have "filter (\<lambda>i. P (result_at u (x # rest) i)) (map Suc [0..<length rest]) =
        map Suc (filter (\<lambda>i. P (result_at (u(x := u x - 1)) rest i)) [0..<length rest])"
    unfolding filter_map comp_def
    by (rule arg_cong [where f = "map Suc"], rule filter_cong) (simp_all add: result_at_Suc)
  then show ?thesis
    by (simp add: nodes_where_def upt_conv_Cons map_Suc_upt [symmetric] result_at_0 comp_def
        del: upt_Suc)
qed

lemma nodes_where_Nil [simp]: "nodes_where P u [] = []"
  by (simp add: nodes_where_def)


lemma release_local_successor_fields:
  "tasks (release_local_successor tid x s) =
     (tasks s)(x := (tasks s x)\<lparr>unresolved_deps := unresolved_deps (tasks s x) - 1\<rparr>)"
  "free_task_list (release_local_successor tid x s) = Suc (free_task_list s)"
  "phase_bound (release_local_successor tid x s) = phase_bound s"
  "initialized (release_local_successor tid x s) = initialized s"
  "local_deps (release_local_successor tid x s) = local_deps s"
  "freelist_head (release_local_successor tid x s) = freelist_head s"
  "remote_calls (release_local_successor tid x s) = remote_calls s"
  "unhandled_remote_deps (release_local_successor tid x s) = unhandled_remote_deps s"
  "deferred_remote_releases (release_local_successor tid x s) = deferred_remote_releases s"
  "log (release_local_successor tid x s) =
     log s @ (if sint (counters s x - 1) < 0 then [Error_negative_deps x] else [])"
  by (auto simp: release_local_successor_def Let_def dart_tasking_tasklist_deallocate_elem_def
      dart__tasking__enqueue_runnable_def counters_def)

lemma counters_release_local_successor:
  "counters (release_local_successor tid x s) = (counters s)(x := counters s x - 1)"
  by (rule ext) (simp add: counters_def release_local_successor_fields)

lemma fold_release_tasks:
  "tasks (fold (release_local_successor tid) xs s) =
     (\<lambda>x. (tasks s x)\<lparr>unresolved_deps := unresolved_deps (tasks s x) - of_nat (count_list xs x)\<rparr>)"
  by (induction xs arbitrary: s) (auto simp: release_local_successor_fields fun_eq_iff)

lemma fold_release_unchanged:
  "free_task_list (fold (release_local_successor tid) xs s) = free_task_list s + length xs"
  "phase_bound (fold (release_local_successor tid) xs s) = phase_bound s"
  "initialized (fold (release_local_successor tid) xs s) = initialized s"
  "local_deps (fold (release_local_successor tid) xs s) = local_deps s"
  "freelist_head (fold (release_local_successor tid) xs s) = freelist_head s"
  "remote_calls (fold (release_local_successor tid) xs s) = remote_calls s"
  "unhandled_remote_deps (fold (release_local_successor tid) xs s) = unhandled_remote_deps s"
  "deferred_remote_releases (fold (release_local_successor tid) xs s) =
     deferred_remote_releases s"
  by (induction xs arbitrary: s; simp add: release_local_successor_fields)+

lemma fold_release_log:
  "log (fold (release_local_successor tid) xs s) =
     log s @ map Error_negative_deps (nodes_where (\<lambda>v. sint v < 0) (counters s) xs)"
proof (induction xs arbitrary: s)
  case Nil
  show ?case by simp
next
  case (Cons x xs)
  show ?case
    by (simp add: Cons.IH nodes_where_Cons counters_release_local_successor
        release_local_successor_fields del: fun_upd_apply)
qed

lemma enqueue_all_Nil [simp]: "enqueue_all s tid [] = thread_pool s"
  by (simp add: enqueue_all_def)

lemma enqueue_all_enqueue_runnable:
  "enqueue_all (dart__tasking__enqueue_runnable tid task s) tid zs = enqueue_all s tid (task # zs)"
  by (simp add: enqueue_all_def dart__tasking__enqueue_runnable_def Let_def
      dart__tasking__thread_num_def dart_tasking_taskqueue_push_def)

lemma enqueue_all_fold:
  "thread_pool (fold (dart__tasking__enqueue_runnable tid) zs s) = enqueue_all s tid zs"
proof (induction zs arbitrary: s)
  case Nil
  show ?case by simp
next
  case (Cons z zs)
  show ?case
    by (simp add: Cons.IH enqueue_all_enqueue_runnable del: fun_upd_apply)
qed

lemma enqueue_all_release_local_successor:
  "enqueue_all (release_local_successor tid x s) tid zs =
     enqueue_all s tid ((if counters s x - 1 = 0 then [x] else []) @ zs)"
proof -
  let ?s = "release_local_successor tid x s"
  let ?n = "dart__tasking__thread_num s tid"
  have tn: "dart__tasking__thread_num ?s tid = ?n"
    by (simp add: dart__tasking__thread_num_def release_local_successor_fields)
  have ph: "t_phase (tasks ?s t) = t_phase (tasks s t)" for t
    by (simp add: release_local_successor_fields)
  have pool: "thread_pool ?s = enqueue_all s tid (if counters s x - 1 = 0 then [x] else [])"
    apply (simp add: release_local_successor_def Let_def dart_tasking_tasklist_deallocate_elem_def)
    apply (simp add: dart__tasking__enqueue_runnable_def counters_def enqueue_all_def
        dart_tasking_taskqueue_push_def Let_def dart__tasking__thread_num_def)
    done
  show ?thesis
    apply (subst enqueue_all_def)
    apply (simp only: tn)
    apply (simp only: ph)
    apply (simp only: release_local_successor_fields(3))
    apply (simp only: pool)
    apply (cases "counters s x - 1 = 0")
     apply (simp_all add: enqueue_all_def)
    done
qed

lemma fold_release_thread_pool:
  "thread_pool (fold (release_local_successor tid) xs s) =
     enqueue_all s tid (nodes_where (\<lambda>v. v = 0) (counters s) xs)"
proof (induction xs arbitrary: s)
  case Nil
  show ?case by simp
next
  case (Cons x xs)
  show ?case
    by (simp add: Cons.IH nodes_where_Cons counters_release_local_successor
        enqueue_all_release_local_successor del: fun_upd_apply)
qed


lemma fold_release_remote:
  "fold (\<lambda>tmp s'. dephash_recycle_elem (remote_send (release_message tmp) s')) rs s =
     s\<lparr>remote_calls := remote_calls s @ map release_message rs,
       freelist_head := freelist_head s + length rs\<rparr>"
  by (induction rs arbitrary: s) (simp_all add: dephash_recycle_elem_def remote_send_def)

lemma release_remote_dependencies_eq:
  "release_remote_dependencies task s =
     (DART_OK,
      upd_task task (\<lambda>t. t\<lparr>remote_successor := []\<rparr>)
        (s\<lparr>remote_calls := remote_calls s @ map release_message (remote_successor (tasks s task)),
           freelist_head := freelist_head s + length (remote_successor (tasks s task))\<rparr>))"
  unfolding release_remote_dependencies_def Let_def release_message_def [symmetric]
  by (simp add: fold_release_remote)


text \<open>Claim C6. \<open>release_local_task\<close> sends one release for each record on the task's
  \<open>remote_successor\<close> list, returns each record to the free list and leaves the list
  empty. Then it walks the local successor list: each node decrements the counter of its
  task once; the tasks of the nodes whose decrement returned 0 are queued with
  \<open>enqueue_runnable\<close>, in list order; the nodes whose decrement returned a negative value
  log an error and queue nothing; and every node goes back to the free list of list
  nodes.\<close>

theorem release_local_task_effect:
  fixes tid :: int and task :: task_ptr and s :: state
  defines "rs \<equiv> remote_successor (tasks s task)"
  defines "succs \<equiv> successor (tasks s task)"
  defines "r \<equiv> dart_tasking_datadeps_release_local_task tid task s"
  shows "fst r = DART_OK
         \<and> remote_calls (snd r) = remote_calls s @ map release_message rs
         \<and> freelist_head (snd r) = freelist_head s + length rs
         \<and> remote_successor (tasks (snd r) task) = []
         \<and> (\<forall>x. unresolved_deps (tasks (snd r) x) =
                  counters s x - of_nat (count_list succs x))
         \<and> thread_pool (snd r) =
             thread_pool (fold (dart__tasking__enqueue_runnable tid)
                            (nodes_where (\<lambda>v. v = 0) (counters s) succs) s)
         \<and> log (snd r) =
             log s @ map Error_negative_deps (nodes_where (\<lambda>v. sint v < 0) (counters s) succs)
         \<and> free_task_list (snd r) = free_task_list s + length succs"
proof -
  define s1 where "s1 = snd (release_remote_dependencies task s)"
  have s1: "s1 = upd_task task (\<lambda>t. t\<lparr>remote_successor := []\<rparr>)
        (s\<lparr>remote_calls := remote_calls s @ map release_message rs,
           freelist_head := freelist_head s + length rs\<rparr>)"
    by (simp add: s1_def release_remote_dependencies_eq rs_def)
  have succs1: "successor (tasks s1 task) = succs"
    by (simp add: s1 succs_def)
  have r: "r = (DART_OK, fold (release_local_successor tid) succs s1)"
    by (simp add: r_def dart_tasking_datadeps_release_local_task_def Let_def
        s1_def [symmetric] succs1)
  have c1: "counters s1 = counters s"
    by (rule ext) (simp add: counters_def s1)
  have "t_phase (tasks s1 t) = t_phase (tasks s t)" for t
    by (simp add: s1)
  then have e1: "enqueue_all s1 tid zs = enqueue_all s tid zs" for zs
    by (simp add: enqueue_all_def dart__tasking__thread_num_def) (simp add: s1)
  show ?thesis
    by (simp add: r fold_release_tasks fold_release_unchanged fold_release_log
        fold_release_thread_pool c1 e1 enqueue_all_fold)
       (simp add: s1 counters_def)
qed

theorem release_local_task_effect_witness:
  "queue (thread_pool (snd (dart_tasking_datadeps_release_local_task 0 2 ex_release_state)) 0)
     = [3]
   \<and> log (snd (dart_tasking_datadeps_release_local_task 0 2 ex_release_state))
     = [Error_negative_deps 4]
   \<and> remote_calls (snd (dart_tasking_datadeps_release_local_task 0 2 ex_release_state))
     = [Remote_release 0 9 ex_read_dep]
   \<and> free_task_list (snd (dart_tasking_datadeps_release_local_task 0 2 ex_release_state)) = 3"
proof -
  have n: "nodes_where P (counters ex_release_state) [3, 4, 3] =
     (if P 1 then [3] else []) @ (if P (- 1) then [4] else []) @ (if P 0 then [3] else [])"
    for P
    by (simp add: nodes_where_Cons counters_def ex_release_state_def ex_state_def
        static_state_def static_root_task_def)
  have f: "successor (tasks ex_release_state 2) = [3, 4, 3]"
    "remote_successor (tasks ex_release_state 2) =
       [\<lparr>e_task = 9, e_taskdep = ex_read_dep, e_phase = 0\<rparr>]"
    "log ex_release_state = []" "remote_calls ex_release_state = []"
    "free_task_list ex_release_state = 0"
    by (simp_all add: ex_release_state_def ex_state_def static_state_def)
  have q: "queue (enqueue_all ex_release_state 0 [3] 0) = [3]"
    by (simp add: ex_release_state_def ex_state_def static_state_def static_root_task_def
        enqueue_all_def dart__tasking__thread_num_def dart_thread_init_def)
  have m: "release_message \<lparr>e_task = 9, e_taskdep = ex_read_dep, e_phase = 0\<rparr> =
      Remote_release 0 9 ex_read_dep"
    by (simp add: release_message_def ex_read_dep_def)
  from release_local_task_effect [of 0 2 ex_release_state]
  show ?thesis
    unfolding f enqueue_all_fold by (simp add: n q m)
qed


subsection \<open>Resolving staged remote requests\<close>

lemma same_structure_refl [simp]: "same_structure s s"
  by (simp add: same_structure_def)

lemma same_structure_trans:
  "same_structure s s' \<Longrightarrow> same_structure s' s'' \<Longrightarrow> same_structure s s''"
  by (simp add: same_structure_def)

lemma same_structure_fold:
  assumes "\<And>x s. same_structure s (f x s)"
  shows "same_structure s (fold f xs s)"
proof (induction xs arbitrary: s)
  case Nil
  show ?case by simp
next
  case (Cons x xs)
  from assms [of s x] Cons.IH [of "f x s"] show ?case
    by (auto intro: same_structure_trans)
qed

lemma find_candidates_same_structure:
  "same_structure s s' \<Longrightarrow>
   find_candidates s' rdep b c d held = find_candidates s rdep b c d held"
proof (induction b arbitrary: c d held)
  case Nil
  show ?case by simp
next
  case (Cons a b)
  from Cons.prems have ph: "t_phase (tasks s' x) = t_phase (tasks s x)"
    and act: "IS_ACTIVE_TASK (tasks s' x) = IS_ACTIVE_TASK (tasks s x)" for x
    by (simp_all add: same_structure_def IS_ACTIVE_TASK_def)
  show ?case
    by (simp only: find_candidates.simps ph act Cons.IH [OF Cons.prems])
qed

lemma is_match_same_structure:
  "same_structure s s' \<Longrightarrow> is_match s' rdep = is_match s rdep"
  by (rule ext) (simp add: is_match_def same_structure_def IS_ACTIVE_TASK_def)

lemma matching_writers_same_structure:
  "same_structure s s' \<Longrightarrow> matching_writers s' rdep = matching_writers s rdep"
  by (simp add: matching_writers_def is_match_same_structure) (simp add: same_structure_def)

lemma enqueue_runnable_same_structure:
  "same_structure s (dart__tasking__enqueue_runnable tid task s)"
  by (simp add: same_structure_def dart__tasking__enqueue_runnable_def Let_def)

lemma release_one_remote_dep_same_structure:
  "same_structure s (release_one_remote_dep tid task s)"
  by (simp add: same_structure_def release_one_remote_dep_def
      dart__tasking__enqueue_runnable_def Let_def)

lemma release_deferred_same_structure:
  "same_structure s (release_deferred_remote_releases tid s)"
proof -
  have "same_structure s (fold (release_deferred_elem tid) xs s)" for xs
    by (rule same_structure_fold)
       (simp add: same_structure_def release_deferred_elem_def release_one_remote_dep_def
          dart__tasking__enqueue_runnable_def Let_def dephash_recycle_elem_def)
  then show ?thesis
    by (simp add: release_deferred_remote_releases_def same_structure_def)
qed

lemma deliver_same_structure: "same_structure s (deliver tid m s)"
  by (cases m)
     (simp_all add: deliver_def same_structure_def dart_tasking_datadeps_handle_remote_task_def
        dart_tasking_datadeps_handle_remote_direct_def dart_tasking_datadeps_release_remote_dep_def
        dephash_allocate_elem_def release_one_remote_dep_def dart__tasking__enqueue_runnable_def
        dart__tasking__phase_bound_def Let_def)

lemma remote_progress_same_structure:
  "same_structure s (dart_tasking_remote_progress tid s)"
proof -
  have "same_structure (s\<lparr>inbox := []\<rparr>) (fold (deliver tid) (inbox s) (s\<lparr>inbox := []\<rparr>))"
    by (rule same_structure_fold) (rule deliver_same_structure)
  then show ?thesis
    by (simp add: dart_tasking_remote_progress_def same_structure_def)
qed

lemma relock_free_same_structure:
  "same_structure s s' \<Longrightarrow> relock_free s' rdep b = relock_free s rdep b"
  by (induction b) (simp_all add: is_match_same_structure, simp add: same_structure_def)

lemma find_candidates_relock:
  "e_task a \<in> held \<Longrightarrow> find_candidates s rdep (a # b) c d held = None"
  by (simp add: dart_mutex_lock_def)

lemma find_candidates_no_match:
  "\<not> is_match s rdep a \<Longrightarrow> e_task a \<notin> held \<Longrightarrow>
   find_candidates s rdep (a # b) c d held = find_candidates s rdep b c d held"
  by (auto simp: is_match_def Let_def dart_mutex_lock_def dart_mutex_unlock_def)

lemma find_candidates_later:
  "is_match s rdep a \<Longrightarrow> e_phase rdep \<le> t_phase (tasks s (e_task a)) \<Longrightarrow> e_task a \<notin> held \<Longrightarrow>
   find_candidates s rdep (a # b) c d held =
     find_candidates s rdep b c
       (if d = DART_TASK_NULL \<or> t_phase (tasks s d) > t_phase (tasks s (e_task a))
        then e_task a else d) held"
  by (auto simp: is_match_def Let_def dart_mutex_lock_def dart_mutex_unlock_def)

lemma find_candidates_earlier:
  "is_match s rdep a \<Longrightarrow> \<not> e_phase rdep \<le> t_phase (tasks s (e_task a)) \<Longrightarrow> e_task a \<notin> held \<Longrightarrow>
   find_candidates s rdep (a # b) c d held =
     (if c = DART_TASK_NULL \<or> t_phase (tasks s (e_task a)) > t_phase (tasks s c)
      then find_candidates s rdep b (e_task a) d
             (if c \<noteq> DART_TASK_NULL then insert (e_task a) held - {c} else insert (e_task a) held)
      else find_candidates s rdep b c d held)"
  by (auto simp: is_match_def Let_def dart_mutex_lock_def dart_mutex_unlock_def)

lemma find_candidates_returns:
  "relock_free s rdep b \<Longrightarrow> held \<inter> set (map e_task b) = {} \<Longrightarrow>
   \<exists>c d h. find_candidates s rdep b c0 d0 held = Some (c, d, h)"
proof (induction b arbitrary: c0 d0 held)
  case Nil
  show ?case by simp
next
  case (Cons a b)
  from Cons.prems have nh: "e_task a \<notin> held" and hb: "held \<inter> set (map e_task b) = {}"
    and rf: "relock_free s rdep b"
    by auto
  show ?case
  proof (cases "is_match s rdep a")
    case False
    from Cons.IH [OF rf hb] show ?thesis
      by (simp only: find_candidates_no_match [OF False nh])
  next
    case True
    show ?thesis
    proof (cases "e_phase rdep \<le> t_phase (tasks s (e_task a))")
      case ge: True
      from Cons.IH [OF rf hb] show ?thesis
        by (simp only: find_candidates_later [OF True ge nh])
    next
      case lt: False
      with True Cons.prems(1) have na: "e_task a \<notin> set (map e_task b)"
        by (simp add: not_le)
      have h1: "(insert (e_task a) held - {c0}) \<inter> set (map e_task b) = {}"
        and h2: "insert (e_task a) held \<inter> set (map e_task b) = {}"
        using hb na by (auto simp: image_iff)
      show ?thesis
        using Cons.IH [OF rf hb] Cons.IH [OF rf h1] Cons.IH [OF rf h2]
        by (simp only: find_candidates_earlier [OF True lt nh] split: if_split) simp
    qed
  qed
qed

lemma smallest_phase_Nil [simp]: "smallest_phase s [] = DART_TASK_NULL"
  by (simp add: smallest_phase_def)

lemma largest_phase_Nil [simp]: "largest_phase s [] = DART_TASK_NULL"
  by (simp add: largest_phase_def)

lemma smallest_phase_step:
  "smallest_phase s (d # x # xs) =
     smallest_phase s ((if t_phase (tasks s x) < t_phase (tasks s d) then x else d) # xs)"
proof (cases "t_phase (tasks s x) < t_phase (tasks s d)")
  case True
  have "(\<forall>u \<in> set (d # x # xs). t_phase (tasks s t) \<le> t_phase (tasks s u)) =
        (\<forall>u \<in> set (x # xs). t_phase (tasks s t) \<le> t_phase (tasks s u))" for t
    using True by auto
  with True show ?thesis
    by (auto simp: smallest_phase_def)
next
  case False
  have "(\<forall>u \<in> set (d # x # xs). t_phase (tasks s t) \<le> t_phase (tasks s u)) =
        (\<forall>u \<in> set (d # xs). t_phase (tasks s t) \<le> t_phase (tasks s u))" for t
    using False by auto
  with False show ?thesis
    by (auto simp: smallest_phase_def)
qed

lemma largest_phase_step:
  "largest_phase s (c # x # xs) =
     largest_phase s ((if t_phase (tasks s c) < t_phase (tasks s x) then x else c) # xs)"
proof (cases "t_phase (tasks s c) < t_phase (tasks s x)")
  case True
  have "(\<forall>u \<in> set (c # x # xs). t_phase (tasks s u) \<le> t_phase (tasks s t)) =
        (\<forall>u \<in> set (x # xs). t_phase (tasks s u) \<le> t_phase (tasks s t))" for t
    using True by auto
  with True show ?thesis
    by (auto simp: largest_phase_def)
next
  case False
  have "(\<forall>u \<in> set (c # x # xs). t_phase (tasks s u) \<le> t_phase (tasks s t)) =
        (\<forall>u \<in> set (c # xs). t_phase (tasks s u) \<le> t_phase (tasks s t))" for t
    using False by auto
  with False show ?thesis
    by (auto simp: largest_phase_def)
qed

lemma smallest_phase_in:
  assumes "ts \<noteq> []"
  shows "smallest_phase s ts \<in> set ts
         \<and> (\<forall>u \<in> set ts. t_phase (tasks s (smallest_phase s ts)) \<le> t_phase (tasks s u))"
proof -
  let ?f = "\<lambda>t. t_phase (tasks s t)"
  from assms have "Min (?f ` set ts) \<in> ?f ` set ts"
    by (intro Min_in) auto
  then obtain m where m: "m \<in> set ts" "?f m = Min (?f ` set ts)"
    by auto
  then have "\<forall>u \<in> set ts. ?f m \<le> ?f u"
    by simp
  with m(1) have "List.find (\<lambda>t. \<forall>u \<in> set ts. ?f t \<le> ?f u) ts \<noteq> None"
    by (auto simp: find_None_iff)
  then obtain t where t: "List.find (\<lambda>t. \<forall>u \<in> set ts. ?f t \<le> ?f u) ts = Some t"
    by auto
  then have "t \<in> set ts \<and> (\<forall>u \<in> set ts. ?f t \<le> ?f u)"
    by (auto simp: find_Some_iff)
  with t show ?thesis
    by (simp add: smallest_phase_def)
qed

lemma largest_phase_in:
  assumes "ts \<noteq> []"
  shows "largest_phase s ts \<in> set ts
         \<and> (\<forall>u \<in> set ts. t_phase (tasks s u) \<le> t_phase (tasks s (largest_phase s ts)))"
proof -
  let ?f = "\<lambda>t. t_phase (tasks s t)"
  from assms have "Max (?f ` set ts) \<in> ?f ` set ts"
    by (intro Max_in) auto
  then obtain m where m: "m \<in> set ts" "?f m = Max (?f ` set ts)"
    by auto
  then have "\<forall>u \<in> set ts. ?f u \<le> ?f m"
    by simp
  with m(1) have "List.find (\<lambda>t. \<forall>u \<in> set ts. ?f u \<le> ?f t) ts \<noteq> None"
    by (auto simp: find_None_iff)
  then obtain t where t: "List.find (\<lambda>t. \<forall>u \<in> set ts. ?f u \<le> ?f t) ts = Some t"
    by auto
  then have "t \<in> set ts \<and> (\<forall>u \<in> set ts. ?f u \<le> ?f t)"
    by (auto simp: find_Some_iff)
  with t show ?thesis
    by (simp add: largest_phase_def)
qed

lemma find_candidates_chosen:
  fixes s rdep
  defines "m \<equiv> \<lambda>b. map e_task (filter (is_match s rdep) b)"
  defines "acc \<equiv> \<lambda>t. if t = DART_TASK_NULL then [] else [t]"
  assumes "DART_TASK_NULL \<notin> set (m b)"
    and "find_candidates s rdep b c0 d0 held = Some (c, d, h)"
  shows "c = largest_phase s (acc c0 @ filter (\<lambda>t. t_phase (tasks s t) < e_phase rdep) (m b))
       \<and> d = smallest_phase s (acc d0 @ filter (\<lambda>t. e_phase rdep \<le> t_phase (tasks s t)) (m b))"
  using assms(3,4)
proof (induction b arbitrary: c0 d0 held)
  case Nil
  have "smallest_phase s [t] = t" "largest_phase s [t] = t" for t
    by (simp_all add: smallest_phase_def largest_phase_def)
  with Nil show ?case
    by (simp add: m_def acc_def)
next
  case (Cons a b)
  have nn: "DART_TASK_NULL \<notin> set (m b)"
    using Cons.prems(1) by (auto simp: m_def split: if_splits)
  note IH = Cons.IH [OF nn]
  have nh: "e_task a \<notin> held"
  proof
    assume "e_task a \<in> held"
    then have "find_candidates s rdep (a # b) c0 d0 held = None"
      by (rule find_candidates_relock)
    with Cons.prems(2) show False
      by (simp del: find_candidates.simps)
  qed
  show ?case
  proof (cases "is_match s rdep a")
    case False
    then have "m (a # b) = m b" by (auto simp: m_def)
    with IH [of c0 d0 held] Cons.prems(2) show ?thesis
      by (simp only: find_candidates_no_match [OF False nh])
  next
    case True
    then have mm: "m (a # b) = e_task a # m b" by (simp add: m_def)
    with Cons.prems(1) have ta: "e_task a \<noteq> DART_TASK_NULL" by auto
    show ?thesis
    proof (cases "e_phase rdep \<le> t_phase (tasks s (e_task a))")
      case ge: True
      let ?d = "if d0 = DART_TASK_NULL \<or> t_phase (tasks s d0) > t_phase (tasks s (e_task a))
                then e_task a else d0"
      from Cons.prems(2) have "find_candidates s rdep b c0 ?d held = Some (c, d, h)"
        by (simp only: find_candidates_later [OF True ge nh])
      from IH [OF this] show ?thesis
        using ge ta by (auto simp: mm acc_def smallest_phase_step not_less)
    next
      case lt: False
      let ?c = "if c0 = DART_TASK_NULL \<or> t_phase (tasks s (e_task a)) > t_phase (tasks s c0)
                then e_task a else c0"
      from Cons.prems(2) have "\<exists>held'. find_candidates s rdep b ?c d0 held' = Some (c, d, h)"
        by (simp only: find_candidates_earlier [OF True lt nh] split: if_split_asm) auto
      then obtain held' where "find_candidates s rdep b ?c d0 held' = Some (c, d, h)" ..
      from IH [OF this] show ?thesis
        using lt ta by (auto simp: mm acc_def largest_phase_step not_less)
    qed
  qed
qed

lemma release_unhandled_elem_fields:
  assumes "find_candidates s rdep (local_deps s (hash_gptr (dep_gptr (e_taskdep rdep))))
             DART_TASK_NULL DART_TASK_NULL {} = Some (c, d, h)"
  shows "\<exists>s'. release_unhandled_elem rdep s = Some s'
     \<and> remote_calls s' =
         remote_calls s
           @ (if d \<noteq> DART_TASK_NULL
              then [Remote_direct_taskdep (unitid (dep_gptr (e_taskdep rdep))) d (e_task rdep)]
              else [])
           @ (if c = DART_TASK_NULL
              then [Remote_release (unitid (dep_gptr (e_taskdep rdep))) (e_task rdep)
                      (e_taskdep rdep)]
              else [])
     \<and> (\<forall>x. unresolved_deps (tasks s' x) =
              unresolved_deps (tasks s x) + (if x = d \<and> d \<noteq> DART_TASK_NULL then 1 else 0))
     \<and> (\<forall>x. remote_successor (tasks s' x) =
              (if x = c \<and> c \<noteq> DART_TASK_NULL then [rdep] else []) @ remote_successor (tasks s x))
     \<and> freelist_head s' = freelist_head s + (if c = DART_TASK_NULL then 1 else 0)"
  using assms
  by (auto simp: release_unhandled_elem_def Let_def dephash_recycle_elem_def)

lemma release_unhandled_elem_None:
  "find_candidates s rdep (local_deps s (hash_gptr (dep_gptr (e_taskdep rdep))))
     DART_TASK_NULL DART_TASK_NULL {} = None \<Longrightarrow>
   release_unhandled_elem rdep s = None"
  by (simp add: release_unhandled_elem_def)

lemma release_unhandled_elem_frame:
  assumes "release_unhandled_elem rdep s = Some s'"
  shows "same_structure s s'"
    and "deferred_remote_releases s' = deferred_remote_releases s"
    and "phase_bound s' = phase_bound s"
    and "thread_pool s' = thread_pool s"
    and "unhandled_remote_deps s' = unhandled_remote_deps s"
    and "counters s' x =
           counters s x + (if x \<noteq> DART_TASK_NULL \<and> chosen_direct_dep s rdep = x then 1 else 0)"
  using assms
  by (auto simp: release_unhandled_elem_def Let_def dephash_recycle_elem_def same_structure_def
      counters_def chosen_direct_dep_def split: option.splits if_splits)

lemma release_unhandled_elem_returns:
  "relock_free s rdep (local_deps s (hash_gptr (dep_gptr (e_taskdep rdep)))) \<Longrightarrow>
   \<exists>s'. release_unhandled_elem rdep s = Some s'"
  using find_candidates_returns [of s rdep "local_deps s (hash_gptr (dep_gptr (e_taskdep rdep)))"
      "{}" DART_TASK_NULL DART_TASK_NULL]
    release_unhandled_elem_fields [of s rdep]
  by auto

lemma chosen_direct_dep_same_structure:
  "same_structure s s' \<Longrightarrow> chosen_direct_dep s' rdep = chosen_direct_dep s rdep"
  by (simp add: chosen_direct_dep_def find_candidates_same_structure) (simp add: same_structure_def)

lemma release_unhandled_loop_frame:
  assumes "release_unhandled_loop rs s = Some s'"
  shows "same_structure s s'
       \<and> deferred_remote_releases s' = deferred_remote_releases s
       \<and> phase_bound s' = phase_bound s
       \<and> thread_pool s' = thread_pool s
       \<and> unhandled_remote_deps s' = unhandled_remote_deps s
       \<and> (\<forall>x. counters s' x =
              counters s x
                + of_nat (length (filter (\<lambda>rdep. x \<noteq> DART_TASK_NULL
                                           \<and> chosen_direct_dep s rdep = x) rs)))"
  using assms
proof (induction rs arbitrary: s)
  case Nil
  then show ?case by simp
next
  case (Cons r rs)
  from Cons.prems obtain s1 where e: "release_unhandled_elem r s = Some s1"
    and l: "release_unhandled_loop rs s1 = Some s'"
    by (auto split: option.splits)
  note f = release_unhandled_elem_frame [OF e]
  have cd: "chosen_direct_dep s1 = chosen_direct_dep s"
    by (rule ext) (rule chosen_direct_dep_same_structure [OF f(1)])
  from Cons.IH [OF l] f(1-5) f(6) show ?case
    by (auto simp: cd intro: same_structure_trans)
qed

lemma release_unhandled_loop_returns:
  assumes "\<forall>r \<in> set rs. relock_free s r (local_deps s (hash_gptr (dep_gptr (e_taskdep r))))"
  shows "\<exists>s'. release_unhandled_loop rs s = Some s'"
  using assms
proof (induction rs arbitrary: s)
  case Nil
  show ?case by simp
next
  case (Cons r rs)
  from Cons.prems release_unhandled_elem_returns [of s r]
  obtain s1 where e: "release_unhandled_elem r s = Some s1"
    by auto
  note ss = release_unhandled_elem_frame(1) [OF e]
  then have ld: "local_deps s1 = local_deps s"
    by (simp add: same_structure_def)
  have "\<forall>r \<in> set rs. relock_free s1 r (local_deps s1 (hash_gptr (dep_gptr (e_taskdep r))))"
    using Cons.prems by (simp add: relock_free_same_structure [OF ss] ld)
  from Cons.IH [OF this] e show ?case
    by simp
qed

lemma release_unhandled_loop_append:
  "release_unhandled_loop (pre @ r # post) s =
     (case release_unhandled_loop pre s of
        None \<Rightarrow> None
      | Some s1 \<Rightarrow>
          (case release_unhandled_elem r s1 of
             None \<Rightarrow> None
           | Some s2 \<Rightarrow> release_unhandled_loop post s2))"
  by (induction pre arbitrary: s) (simp_all split: option.splits)

lemma release_deferred_none:
  "deferred_remote_releases s = [] \<Longrightarrow> release_deferred_remote_releases tid s = s"
  by (simp add: release_deferred_remote_releases_def)

text \<open>Claim C2, as amended. For each staged request that \<open>release_unhandled_remote\<close>
  processes and whose bucket walk returns, the candidates are taken from the tasks of the
  records in the bucket of the requested region that write the region and are active
  (created or running). The direct-dependency candidate \<open>d\<close> is the one of smallest phase
  among those whose phase is at least the phase of the request: a direct task dependency
  is sent to the origin for it and its \<open>unresolved_deps\<close> goes up by one. The fulfillment
  candidate \<open>c\<close> is the one of largest phase among those whose phase is below the phase of
  the request: the request is put on its \<open>remote_successor\<close> list. Of several tasks of
  that phase it is the one whose record is newest. When there is no fulfillment
  candidate, a release is sent to the origin at once and the record goes back to the free
  list. The walk returns whenever no task that is eligible as fulfillment candidate has a
  further record behind it in the bucket.\<close>

theorem release_unhandled_candidates:
  fixes s s1 :: state and rdep :: dart_dephash_elem and pre post :: "dart_dephash_elem list"
    and tid :: int
  defines "d \<equiv> smallest_phase s (direct_dep_candidates s rdep)"
  defines "c \<equiv> largest_phase s (fulfillment_candidates s rdep)"
  defines "origin \<equiv> unitid (dep_gptr (e_taskdep rdep))"
  assumes staged: "unhandled_remote_deps s = pre @ rdep # post"
    and before: "release_unhandled_loop pre s = Some s1"
    and nonnull: "DART_TASK_NULL \<notin> set (matching_writers s rdep)"
  shows "(relock_free s rdep (local_deps s (hash_gptr (dep_gptr (e_taskdep rdep)))) \<longrightarrow>
            (\<exists>s2. release_unhandled_elem rdep s1 = Some s2))
    \<and> (\<forall>s2. release_unhandled_elem rdep s1 = Some s2 \<longrightarrow>
          (\<exists>held. find_candidates s1 rdep (local_deps s1 (hash_gptr (dep_gptr (e_taskdep rdep))))
                     DART_TASK_NULL DART_TASK_NULL {} = Some (c, d, held))
        \<and> (direct_dep_candidates s rdep = [] \<longrightarrow> d = DART_TASK_NULL)
        \<and> (direct_dep_candidates s rdep \<noteq> [] \<longrightarrow>
             d \<in> set (direct_dep_candidates s rdep)
             \<and> (\<forall>t \<in> set (direct_dep_candidates s rdep).
                   t_phase (tasks s d) \<le> t_phase (tasks s t)))
        \<and> (fulfillment_candidates s rdep = [] \<longrightarrow> c = DART_TASK_NULL)
        \<and> (fulfillment_candidates s rdep \<noteq> [] \<longrightarrow>
             c \<in> set (fulfillment_candidates s rdep)
             \<and> (\<forall>t \<in> set (fulfillment_candidates s rdep).
                   t_phase (tasks s t) \<le> t_phase (tasks s c)))
        \<and> remote_calls s2 =
            remote_calls s1
              @ (if d \<noteq> DART_TASK_NULL then [Remote_direct_taskdep origin d (e_task rdep)]
                 else [])
              @ (if c = DART_TASK_NULL
                 then [Remote_release origin (e_task rdep) (e_taskdep rdep)] else [])
        \<and> (\<forall>x. unresolved_deps (tasks s2 x) =
                  unresolved_deps (tasks s1 x) + (if x = d \<and> d \<noteq> DART_TASK_NULL then 1 else 0))
        \<and> (\<forall>x. remote_successor (tasks s2 x) =
                  (if x = c \<and> c \<noteq> DART_TASK_NULL then [rdep] else [])
                    @ remote_successor (tasks s1 x))
        \<and> freelist_head s2 = freelist_head s1 + (if c = DART_TASK_NULL then 1 else 0)
        \<and> dart_tasking_datadeps_release_unhandled_remote tid s =
            (case release_unhandled_loop post s2 of
               None \<Rightarrow> None
             | Some s3 \<Rightarrow>
                 Some (DART_OK,
                       release_deferred_remote_releases tid
                         (s3\<lparr>unhandled_remote_deps := []\<rparr>))))"
proof -
  let ?slot = "hash_gptr (dep_gptr (e_taskdep rdep))"
  let ?b = "local_deps s ?slot"
  have ss: "same_structure s s1"
    using release_unhandled_loop_frame [OF before] by simp
  then have b1: "local_deps s1 = local_deps s"
    by (simp add: same_structure_def)
  have returns: "\<exists>s2. release_unhandled_elem rdep s1 = Some s2" if "relock_free s rdep ?b"
    using that release_unhandled_elem_returns [of s1 rdep]
    by (simp add: relock_free_same_structure [OF ss] b1)
  have nn: "DART_TASK_NULL \<notin> set (map e_task (filter (is_match s rdep) ?b))"
    using nonnull by (simp add: matching_writers_def)
  have sel_d: "direct_dep_candidates s rdep \<noteq> [] \<longrightarrow>
         d \<in> set (direct_dep_candidates s rdep)
         \<and> (\<forall>t \<in> set (direct_dep_candidates s rdep). t_phase (tasks s d) \<le> t_phase (tasks s t))"
    unfolding d_def using smallest_phase_in [of "direct_dep_candidates s rdep" s] by blast
  have sel_c: "fulfillment_candidates s rdep \<noteq> [] \<longrightarrow>
         c \<in> set (fulfillment_candidates s rdep)
         \<and> (\<forall>t \<in> set (fulfillment_candidates s rdep). t_phase (tasks s t) \<le> t_phase (tasks s c))"
    unfolding c_def using largest_phase_in [of "fulfillment_candidates s rdep" s] by blast
  have nil: "direct_dep_candidates s rdep = [] \<longrightarrow> d = DART_TASK_NULL"
    "fulfillment_candidates s rdep = [] \<longrightarrow> c = DART_TASK_NULL"
    by (simp_all add: c_def d_def)
  have result:
      "(\<exists>held. find_candidates s1 rdep (local_deps s1 ?slot)
                     DART_TASK_NULL DART_TASK_NULL {} = Some (c, d, held))
        \<and> remote_calls s2 =
            remote_calls s1
              @ (if d \<noteq> DART_TASK_NULL then [Remote_direct_taskdep origin d (e_task rdep)]
                 else [])
              @ (if c = DART_TASK_NULL
                 then [Remote_release origin (e_task rdep) (e_taskdep rdep)] else [])
        \<and> (\<forall>x. unresolved_deps (tasks s2 x) =
                  unresolved_deps (tasks s1 x) + (if x = d \<and> d \<noteq> DART_TASK_NULL then 1 else 0))
        \<and> (\<forall>x. remote_successor (tasks s2 x) =
                  (if x = c \<and> c \<noteq> DART_TASK_NULL then [rdep] else [])
                    @ remote_successor (tasks s1 x))
        \<and> freelist_head s2 = freelist_head s1 + (if c = DART_TASK_NULL then 1 else 0)
        \<and> dart_tasking_datadeps_release_unhandled_remote tid s =
            (case release_unhandled_loop post s2 of
               None \<Rightarrow> None
             | Some s3 \<Rightarrow>
                 Some (DART_OK,
                       release_deferred_remote_releases tid
                         (s3\<lparr>unhandled_remote_deps := []\<rparr>)))"
    if e: "release_unhandled_elem rdep s1 = Some s2" for s2
  proof -
    from e obtain c' d' held where
      w1: "find_candidates s1 rdep (local_deps s1 ?slot) DART_TASK_NULL DART_TASK_NULL {} =
             Some (c', d', held)"
      by (auto simp: release_unhandled_elem_def Let_def split: option.splits)
    then have w: "find_candidates s rdep ?b DART_TASK_NULL DART_TASK_NULL {} = Some (c', d', held)"
      by (simp add: b1 find_candidates_same_structure [OF ss])
    from find_candidates_chosen [OF nn w]
    have cd: "c' = c" "d' = d"
      by (simp_all add: c_def d_def direct_dep_candidates_def fulfillment_candidates_def
          matching_writers_def)
    from release_unhandled_elem_fields [OF w1] e have f: "remote_calls s2 =
        remote_calls s1
          @ (if d \<noteq> DART_TASK_NULL then [Remote_direct_taskdep origin d (e_task rdep)] else [])
          @ (if c = DART_TASK_NULL then [Remote_release origin (e_task rdep) (e_taskdep rdep)]
             else [])"
      "\<forall>x. unresolved_deps (tasks s2 x) =
              unresolved_deps (tasks s1 x) + (if x = d \<and> d \<noteq> DART_TASK_NULL then 1 else 0)"
      "\<forall>x. remote_successor (tasks s2 x) =
              (if x = c \<and> c \<noteq> DART_TASK_NULL then [rdep] else [])
                @ remote_successor (tasks s1 x)"
      "freelist_head s2 = freelist_head s1 + (if c = DART_TASK_NULL then 1 else 0)"
      unfolding origin_def cd by simp_all
    have whole: "dart_tasking_datadeps_release_unhandled_remote tid s =
        (case release_unhandled_loop post s2 of
           None \<Rightarrow> None
         | Some s3 \<Rightarrow>
             Some (DART_OK,
                   release_deferred_remote_releases tid (s3\<lparr>unhandled_remote_deps := []\<rparr>)))"
      by (simp add: dart_tasking_datadeps_release_unhandled_remote_def staged
          release_unhandled_loop_append before e split: option.splits)
    from w1 cd f whole show ?thesis
      by blast
  qed
  from returns nil sel_d sel_c result show ?thesis
    by blast
qed

theorem release_unhandled_candidates_witness:
  "relock_free ex_phases_state ex_request
     (local_deps ex_phases_state (hash_gptr (dep_gptr (e_taskdep ex_request))))
   \<and> direct_dep_candidates ex_phases_state ex_request = [4, 3]
   \<and> fulfillment_candidates ex_phases_state ex_request = [2]
   \<and> (\<exists>s2. dart_tasking_datadeps_release_unhandled_remote 0 ex_phases_state = Some (DART_OK, s2)
         \<and> remote_calls s2 = [Remote_direct_taskdep 5 3 7]
         \<and> remote_successor (tasks s2 2) = [ex_request]
         \<and> unresolved_deps (tasks s2 3) = 1)"
proof -
  have st: "unhandled_remote_deps ex_phases_state = [] @ ex_request # []"
    by (simp add: ex_phases_state_def)
  have b: "release_unhandled_loop [] ex_phases_state = Some ex_phases_state"
    by simp
  have m: "matching_writers ex_phases_state ex_request = [4, 3, 2]"
    by (simp add: matching_writers_def ex_phases_state_def ex_request_def ex_write_def
        is_match_def IS_OUT_DEP_def IS_ACTIVE_TASK_def static_state_def static_root_task_def)
  have nn: "DART_TASK_NULL \<notin> set (matching_writers ex_phases_state ex_request)"
    by (simp add: m DART_TASK_NULL_def)
  have rf: "relock_free ex_phases_state ex_request
      (local_deps ex_phases_state (hash_gptr (dep_gptr (e_taskdep ex_request))))"
    by (simp add: ex_phases_state_def ex_request_def ex_write_def)
  have ph: "t_phase (tasks ex_phases_state 2) = 0" "t_phase (tasks ex_phases_state 3) = 1"
    "t_phase (tasks ex_phases_state 4) = 2" "e_phase ex_request = 1"
    by (simp_all add: ex_phases_state_def ex_request_def)
  have w: "\<not> (2 :: 64 word) \<le> 1"
    by (simp add: word_le_nat_alt)
  have dc: "direct_dep_candidates ex_phases_state ex_request = [4, 3]"
    "fulfillment_candidates ex_phases_state ex_request = [2]"
    by (simp_all add: direct_dep_candidates_def fulfillment_candidates_def m ph w)
  have sel: "smallest_phase ex_phases_state [4, 3] = 3" "largest_phase ex_phases_state [2] = 2"
    by (simp_all add: smallest_phase_def largest_phase_def ph w)
  have f: "remote_calls ex_phases_state = []"
    "remote_successor (tasks ex_phases_state 2) = []"
    "unresolved_deps (tasks ex_phases_state 3) = 0"
    "deferred_remote_releases ex_phases_state = []"
    "unitid (dep_gptr (e_taskdep ex_request)) = 5" "e_task ex_request = 7"
    by (simp_all add: ex_phases_state_def static_state_def static_root_task_def ex_request_def)
  note t = release_unhandled_candidates [OF st b nn, of 0, unfolded dc sel]
  from t rf obtain s2 where e: "release_unhandled_elem ex_request ex_phases_state = Some s2"
    by blast
  with t have r: "remote_calls s2 = [Remote_direct_taskdep 5 3 7]"
      "remote_successor (tasks s2 2) = [ex_request]"
      "unresolved_deps (tasks s2 3) = 1"
    and whole: "dart_tasking_datadeps_release_unhandled_remote 0 ex_phases_state =
        Some (DART_OK, release_deferred_remote_releases 0 (s2\<lparr>unhandled_remote_deps := []\<rparr>))"
    by (simp_all add: f DART_TASK_NULL_def)
  have "deferred_remote_releases (s2\<lparr>unhandled_remote_deps := []\<rparr>) = []"
    using release_unhandled_elem_frame(2) [OF e] by (simp add: f)
  from release_deferred_none [OF this, of 0] whole r rf dc show ?thesis
    by simp
qed

text \<open>A writer that is destroyed is not finished, yet it is not a candidate: the request
  is released at once.\<close>

theorem release_unhandled_destroyed_counterexample:
  "matching_writers (ex_destroyed_state\<lparr>tasks := (tasks ex_destroyed_state)
        (2 := static_root_task\<lparr>t_state := DART_TASK_CREATED\<rparr>)\<rparr>) ex_request = [2]
   \<and> t_state (tasks ex_destroyed_state 2) \<noteq> DART_TASK_FINISHED
   \<and> t_phase (tasks ex_destroyed_state 2) < e_phase ex_request
   \<and> dart_tasking_datadeps_release_unhandled_remote 0 ex_destroyed_state =
       Some (DART_OK, ex_destroyed_state
          \<lparr>freelist_head := 1, unhandled_remote_deps := [],
           remote_calls := [Remote_release 5 7 (e_taskdep ex_request)]\<rparr>)
   \<and> remote_successor (tasks ex_destroyed_state 2) = []"
  by (simp add: matching_writers_def is_match_def ex_destroyed_state_def ex_request_def
      ex_write_def static_state_def static_root_task_def IS_OUT_DEP_def IS_ACTIVE_TASK_def
      dart_tasking_datadeps_release_unhandled_remote_def release_unhandled_elem_def Let_def
      release_deferred_remote_releases_def dephash_recycle_elem_def DART_TASK_NULL_def
      dart_mutex_lock_def dart_mutex_unlock_def remote_send_def)

text \<open>A fulfillment candidate with an older record in the same bucket: the walk comes to
  that record while it holds the mutex of the candidate, locks it again and does not
  return, and neither does the \<open>task_complete\<close> of the root.\<close>

lemma release_unhandled_relock:
  "fulfillment_candidates ex_relock_state ex_request = [2]
   \<and> hash_gptr \<lparr>unitid = 0, segid = 0, addr_or_offs = 8264\<rparr>
       = hash_gptr (dep_gptr (e_taskdep ex_request))
   \<and> map e_task (local_deps ex_relock_state (hash_gptr (dep_gptr (e_taskdep ex_request)))) = [2, 2]
   \<and> \<not> relock_free ex_relock_state ex_request
         (local_deps ex_relock_state (hash_gptr (dep_gptr (e_taskdep ex_request))))
   \<and> release_unhandled_elem ex_request ex_relock_state = None
   \<and> dart_tasking_datadeps_release_unhandled_remote tid ex_relock_state = None
   \<and> task_complete_admit tid thread ex_relock_state = None"
  by (simp add: fulfillment_candidates_def matching_writers_def is_match_def ex_relock_state_def
      ex_request_def ex_write_def static_state_def static_root_task_def IS_OUT_DEP_def
      IS_ACTIVE_TASK_def dart_tasking_datadeps_release_unhandled_remote_def
      release_unhandled_elem_def Let_def DART_TASK_NULL_def dart_mutex_lock_def
      dart_mutex_unlock_def task_complete_admit_def dart_tasking_remote_progress_blocking_def
      dart_tasking_remote_progress_def hash_gptr_def DART_DEPHASH_SIZE_def)


subsection \<open>Deferred remote releases\<close>

lemma release_deferred_elem_fields:
  "tasks (release_deferred_elem tid elem s) =
     (tasks s)(e_task elem :=
        (tasks s (e_task elem))\<lparr>unresolved_deps := unresolved_deps (tasks s (e_task elem)) - 1\<rparr>)"
  "freelist_head (release_deferred_elem tid elem s) = Suc (freelist_head s)"
  "phase_bound (release_deferred_elem tid elem s) = phase_bound s"
  "initialized (release_deferred_elem tid elem s) = initialized s"
  "deferred_remote_releases (release_deferred_elem tid elem s) = deferred_remote_releases s"
  by (auto simp: release_deferred_elem_def release_one_remote_dep_def Let_def
      dephash_recycle_elem_def dart__tasking__enqueue_runnable_def)

lemma counters_release_deferred_elem:
  "counters (release_deferred_elem tid elem s) =
     (counters s)(e_task elem := counters s (e_task elem) - 1)"
  by (rule ext) (simp add: counters_def release_deferred_elem_fields)

lemma enqueue_all_release_deferred_elem:
  "enqueue_all (release_deferred_elem tid elem s) tid zs =
     enqueue_all s tid ((if counters s (e_task elem) - 1 = 0 then [e_task elem] else []) @ zs)"
proof -
  let ?s = "release_deferred_elem tid elem s"
  let ?n = "dart__tasking__thread_num s tid"
  have tn: "dart__tasking__thread_num ?s tid = ?n"
    by (simp add: dart__tasking__thread_num_def release_deferred_elem_fields)
  have ph: "t_phase (tasks ?s t) = t_phase (tasks s t)" for t
    by (simp add: release_deferred_elem_fields)
  have pool: "thread_pool ?s =
      enqueue_all s tid (if counters s (e_task elem) - 1 = 0 then [e_task elem] else [])"
    apply (simp add: release_deferred_elem_def release_one_remote_dep_def Let_def
        dephash_recycle_elem_def)
    apply (simp add: dart__tasking__enqueue_runnable_def counters_def enqueue_all_def
        dart_tasking_taskqueue_push_def Let_def dart__tasking__thread_num_def)
    done
  show ?thesis
    apply (subst enqueue_all_def)
    apply (simp only: tn)
    apply (simp only: ph)
    apply (simp only: release_deferred_elem_fields(3))
    apply (simp only: pool)
    apply (cases "counters s (e_task elem) - 1 = 0")
     apply (simp_all add: enqueue_all_def)
    done
qed

lemma fold_release_deferred_tasks:
  "tasks (fold (release_deferred_elem tid) dl s) =
     (\<lambda>x. (tasks s x)\<lparr>unresolved_deps :=
              unresolved_deps (tasks s x) - of_nat (count_list (map e_task dl) x)\<rparr>)"
  by (induction dl arbitrary: s) (auto simp: release_deferred_elem_fields fun_eq_iff)

lemma fold_release_deferred_unchanged:
  "freelist_head (fold (release_deferred_elem tid) dl s) = freelist_head s + length dl"
  "phase_bound (fold (release_deferred_elem tid) dl s) = phase_bound s"
  "initialized (fold (release_deferred_elem tid) dl s) = initialized s"
  by (induction dl arbitrary: s; simp add: release_deferred_elem_fields)+

lemma fold_release_deferred_thread_pool:
  "thread_pool (fold (release_deferred_elem tid) dl s) =
     enqueue_all s tid (nodes_where (\<lambda>v. v = 0) (counters s) (map e_task dl))"
proof (induction dl arbitrary: s)
  case Nil
  show ?case by simp
next
  case (Cons x xs)
  show ?case
    by (simp add: Cons.IH nodes_where_Cons counters_release_deferred_elem
        enqueue_all_release_deferred_elem del: fun_upd_apply)
qed

lemma enqueue_all_unhandled [simp]:
  "enqueue_all (s\<lparr>unhandled_remote_deps := rs\<rparr>) tid zs = enqueue_all s tid zs"
  by (simp add: enqueue_all_def dart__tasking__thread_num_def)

lemma release_deferred_effect:
  fixes s :: state and tid :: int
  defines "ts \<equiv> map e_task (deferred_remote_releases s)"
  defines "s' \<equiv> release_deferred_remote_releases tid s"
  shows "phase_bound s' = phase_bound s"
    and "deferred_remote_releases s' = []"
    and "unresolved_deps (tasks s' x) = counters s x - of_nat (count_list ts x)"
    and "thread_pool s' = enqueue_all s tid (nodes_where (\<lambda>v. v = 0) (counters s) ts)"
  by (simp_all add: s'_def release_deferred_remote_releases_def ts_def counters_def
      fold_release_deferred_unchanged fold_release_deferred_tasks
      fold_release_deferred_thread_pool)




lemma release_unhandled_remote_effect:
  assumes "release_unhandled_loop (unhandled_remote_deps s) s = Some su"
  shows "\<exists>s2. dart_tasking_datadeps_release_unhandled_remote tid s = Some (DART_OK, s2)
     \<and> phase_bound s2 = phase_bound s
     \<and> deferred_remote_releases s2 = []
     \<and> (\<forall>x. unresolved_deps (tasks s2 x) =
            unresolved_deps (tasks su x)
              - of_nat (count_list (map e_task (deferred_remote_releases s)) x))
     \<and> thread_pool s2 =
         thread_pool (fold (dart__tasking__enqueue_runnable tid)
                        (nodes_where (\<lambda>v. v = 0) (counters su)
                           (map e_task (deferred_remote_releases s))) su)
     \<and> same_structure s s2"
proof -
  note f = release_unhandled_loop_frame [OF assms]
  let ?su = "su\<lparr>unhandled_remote_deps := []\<rparr>"
  have c: "counters ?su = counters su"
    by (rule ext) (simp add: counters_def)
  have d: "deferred_remote_releases ?su = deferred_remote_releases s"
    "phase_bound ?su = phase_bound s"
    using f by simp_all
  have ss: "same_structure s ?su"
    using f by (simp add: same_structure_def)
  note e = release_deferred_effect [where s = ?su and tid = tid, unfolded c d]
  show ?thesis
    using e same_structure_trans [OF ss release_deferred_same_structure [of ?su tid]]
    by (simp add: dart_tasking_datadeps_release_unhandled_remote_def assms enqueue_all_fold
        counters_def)
qed

lemma staged_relock_free_returns:
  "staged_relock_free s \<Longrightarrow> \<exists>su. release_unhandled_loop (unhandled_remote_deps s) s = Some su"
  unfolding staged_relock_free_def by (rule release_unhandled_loop_returns)

lemma task_complete_admit_effect:
  assumes "dart_tasking_datadeps_release_unhandled_remote tid
             (dart_tasking_remote_progress_blocking tid p) = Some (r, s2)"
  shows "\<exists>s3. task_complete_admit tid thread p = Some s3
     \<and> tasks s3 = tasks s2
     \<and> phase_bound s3 = t_phase (tasks s2 (current_task (thread_pool s2 thread)))
     \<and> queue (thread_pool s3 thread) =
         defered_queue (thread_pool s2 thread) @ queue (thread_pool s2 thread)
     \<and> defered_queue (thread_pool s3 thread) = []
     \<and> same_structure s2 s3"
  by (simp add: task_complete_admit_def Let_def assms dart_tasking_taskqueue_move_def
      same_structure_def)





subsection \<open>Invalid usage\<close>

text \<open>Claim C7. Invalid usage returns \<open>ERR_INVAL\<close> and nothing else happens, apart from
  the logged error: \<open>task_complete\<close> with the root task current on a thread whose id is not
  0 processes no task; \<open>phase\<close> from a thread whose number is not 0 does not advance the
  phase; \<open>task_wait\<close> on a null handle pointer, on a null handle or on a handle of a
  destroyed task runs no task and leaves the handle as it is. Each of the calls
  returns, whatever the fuel.\<close>

theorem invalid_usage_err_inval:
  fixes run_fn :: "nat \<Rightarrow> nat \<Rightarrow> int \<Rightarrow> state \<Rightarrow> state option" and fuel :: nat and tid :: int
    and s :: state and h :: task_ptr
  defines "n \<equiv> dart__tasking__thread_num s tid"
  shows "(current_task (thread_pool s n) = root_task \<and> thread_id (thread_pool s n) \<noteq> 0 \<longrightarrow>
            dart__tasking__task_complete run_fn fuel tid s =
              Some (DART_ERR_INVAL, s\<lparr>log := log s @ [Error_complete_not_master]\<rparr>))
         \<and> (n \<noteq> 0 \<longrightarrow>
            dart__tasking__phase tid s =
              (DART_ERR_INVAL, s\<lparr>log := log s @ [Error_phase_not_master]\<rparr>))
         \<and> dart__tasking__task_wait run_fn fuel tid None s = Some (DART_ERR_INVAL, None, s)
         \<and> dart__tasking__task_wait run_fn fuel tid (Some DART_TASK_NULL) s =
             Some (DART_ERR_INVAL, Some DART_TASK_NULL, s)
         \<and> (t_state (tasks s h) = DART_TASK_DESTROYED \<longrightarrow>
            dart__tasking__task_wait run_fn fuel tid (Some h) s =
              Some (DART_ERR_INVAL, Some h, s))"
  by (simp add: n_def dart__tasking__phase_def dart__tasking__task_wait_def log_add_def Let_def)

theorem invalid_usage_err_inval_witness:
  "dart__tasking__task_complete (\<lambda>fn data tid s. Some s) 5 1 ex_idle_state =
     Some (DART_ERR_INVAL, ex_idle_state\<lparr>log := [Error_complete_not_master]\<rparr>)
   \<and> dart__tasking__phase 1 ex_idle_state =
     (DART_ERR_INVAL, ex_idle_state\<lparr>log := [Error_phase_not_master]\<rparr>)
   \<and> dart__tasking__task_wait (\<lambda>fn data tid s. Some s) 5 1 (Some 6)
        (ex_idle_state\<lparr>tasks := (tasks ex_idle_state)
           (6 := static_root_task\<lparr>t_state := DART_TASK_DESTROYED\<rparr>)\<rparr>) =
     Some (DART_ERR_INVAL, Some 6,
        ex_idle_state\<lparr>tasks := (tasks ex_idle_state)
           (6 := static_root_task\<lparr>t_state := DART_TASK_DESTROYED\<rparr>)\<rparr>)"
proof -
  let ?f = "\<lambda>(fn :: nat) (data :: nat) (tid :: int) (s :: state). Some s"
  let ?d = "ex_idle_state\<lparr>tasks := (tasks ex_idle_state)
           (6 := static_root_task\<lparr>t_state := DART_TASK_DESTROYED\<rparr>)\<rparr>"
  have n: "dart__tasking__thread_num ex_idle_state 1 = 1"
    by (simp add: dart__tasking__thread_num_def ex_idle_state_def)
  have c: "current_task (thread_pool ex_idle_state 1) = root_task"
    "thread_id (thread_pool ex_idle_state 1) \<noteq> 0"
    by (simp_all add: ex_idle_state_def dart_thread_init_def)
  have l: "log ex_idle_state = []"
    by (simp add: ex_idle_state_def ex_state_def static_state_def)
  have d: "t_state (tasks ?d 6) = DART_TASK_DESTROYED"
    by simp
  from invalid_usage_err_inval [where s = ex_idle_state and tid = 1 and run_fn = ?f and fuel = 5
      and h = 6]
    invalid_usage_err_inval [where s = ?d and tid = 1 and run_fn = ?f and fuel = 5 and h = 6]
  show ?thesis
    unfolding n using c d by (simp add: l del: dart__tasking__task_complete.simps)
qed


subsection \<open>Empty phases\<close>

lemma master_idle_same_structure:
  "same_structure s s' \<Longrightarrow> master_idle s' = master_idle s"
  by (simp add: master_idle_def same_structure_def)

lemma no_pending_tasks_same_structure:
  "same_structure s s' \<Longrightarrow> no_pending_tasks s' = no_pending_tasks s"
  by (simp add: no_pending_tasks_def same_structure_def IS_ACTIVE_TASK_def)

lemma no_pending_tasks_empty:
  "local_deps s = (\<lambda>_. []) \<Longrightarrow> no_pending_tasks s"
  by (simp add: no_pending_tasks_def)

lemma inactive_relock_free:
  "\<forall>elem \<in> set b. \<not> IS_ACTIVE_TASK (tasks s (e_task elem)) \<Longrightarrow> relock_free s rdep b"
  by (induction b) (simp_all add: is_match_def)

lemma no_pending_tasks_relock_free:
  "no_pending_tasks s \<Longrightarrow> staged_relock_free s"
  by (simp add: no_pending_tasks_def staged_relock_free_def inactive_relock_free)

lemma task_complete_admit_same_structure:
  assumes "task_complete_admit tid thread s = Some a"
  shows "same_structure s a"
proof -
  let ?s1 = "dart_tasking_remote_progress_blocking tid s"
  have s1: "same_structure s ?s1"
    by (simp add: dart_tasking_remote_progress_blocking_def remote_progress_same_structure)
  from assms obtain r s2 where
    r: "dart_tasking_datadeps_release_unhandled_remote tid ?s1 = Some (r, s2)"
    by (auto simp: task_complete_admit_def Let_def split: option.splits)
  then obtain su where l: "release_unhandled_loop (unhandled_remote_deps ?s1) ?s1 = Some su"
    by (auto simp: dart_tasking_datadeps_release_unhandled_remote_def split: option.splits)
  from release_unhandled_remote_effect [OF l, of tid] r have s2: "same_structure ?s1 s2"
    by auto
  from task_complete_admit_effect [OF r, of thread] assms have s3: "same_structure s2 a"
    by auto
  from same_structure_trans [OF same_structure_trans [OF s1 s2] s3] show ?thesis .
qed

lemma task_complete_admit_returns:
  assumes "no_pending_tasks s"
  shows "\<exists>a. task_complete_admit tid thread s = Some a"
proof -
  let ?s1 = "dart_tasking_remote_progress_blocking tid s"
  have s1: "same_structure s ?s1"
    by (simp add: dart_tasking_remote_progress_blocking_def remote_progress_same_structure)
  with assms have "no_pending_tasks ?s1"
    by (simp add: no_pending_tasks_same_structure)
  then have "staged_relock_free ?s1"
    by (rule no_pending_tasks_relock_free)
  from staged_relock_free_returns [OF this] obtain su where
    "release_unhandled_loop (unhandled_remote_deps ?s1) ?s1 = Some su"
    by blast
  from release_unhandled_remote_effect [OF this, of tid] obtain s2 where
    r: "dart_tasking_datadeps_release_unhandled_remote tid ?s1 = Some (DART_OK, s2)"
    by blast
  from task_complete_admit_effect [OF r, of thread] show ?thesis
    by blast
qed

lemma task_complete_loop_idle:
  "\<not> 0 < sint (num_children (tasks s task)) \<Longrightarrow>
   task_complete_loop run_fn fuel tid thread task s = Some s"
  by (cases fuel) simp_all

lemma task_complete_root_idle:
  assumes "master_idle s"
  shows "dart__tasking__task_complete run_fn fuel 0 s =
           (case task_complete_admit 0 0 s of
              None \<Rightarrow> None
            | Some a \<Rightarrow> Some (DART_OK, task_complete_cleanup a))"
proof (cases "task_complete_admit 0 0 s")
  case None
  with assms show ?thesis
    by (simp add: master_idle_def dart__tasking__thread_num_def Let_def)
next
  case (Some a)
  then have ss: "same_structure s a" by (rule task_complete_admit_same_structure)
  with assms have i1: "master_idle a" by (simp add: master_idle_same_structure)
  then have loop: "task_complete_loop run_fn fuel 0 0 root_task a = Some a"
    by (intro task_complete_loop_idle) (simp add: master_idle_def)
  from assms i1 loop show ?thesis
    by (simp add: master_idle_def dart__tasking__thread_num_def Let_def get_current_task_def Some
        del: task_complete_loop.simps)
qed

lemma task_complete_cleanup_fields:
  "local_deps (task_complete_cleanup s) = (\<lambda>_. [])"
  "tasks (task_complete_cleanup s) = tasks s"
  "thread_pool (task_complete_cleanup s) = thread_pool s"
  by (simp_all add: task_complete_cleanup_def dart_tasking_datadeps_reset_def Let_def)

lemma phase_master:
  "dart__tasking__phase 0 s =
     (DART_OK, upd_task root_task (\<lambda>t. t\<lparr>t_phase := t_phase t + 1\<rparr>)
                 (dart_tasking_remote_progress 0 s))"
  by (simp add: dart__tasking__phase_def dart__tasking__thread_num_def Let_def
      dart_tasking_datadeps_end_phase_def)

lemma phase_master_idle:
  assumes "master_idle s"
  shows "master_idle (snd (dart__tasking__phase 0 s))"
    and "no_pending_tasks s \<Longrightarrow> no_pending_tasks (snd (dart__tasking__phase 0 s))"
    and "t_phase (tasks (snd (dart__tasking__phase 0 s)) root_task) =
           t_phase (tasks s root_task) + 1"
proof -
  let ?p = "dart_tasking_remote_progress 0 s"
  let ?s1 = "upd_task root_task (\<lambda>t. t\<lparr>t_phase := t_phase t + 1\<rparr>) ?p"
  have sp: "same_structure s ?p" by (rule remote_progress_same_structure)
  with assms have ip: "master_idle ?p"
    by (simp add: master_idle_same_structure)
  then show "master_idle (snd (dart__tasking__phase 0 s))"
    by (simp add: phase_master master_idle_def)
  have st: "IS_ACTIVE_TASK (tasks ?s1 x) = IS_ACTIVE_TASK (tasks ?p x)" for x
    by (simp add: IS_ACTIVE_TASK_def upd_task_def)
  have ld: "local_deps ?s1 = local_deps ?p"
    by simp
  show "no_pending_tasks (snd (dart__tasking__phase 0 s))" if "no_pending_tasks s"
  proof -
    from that sp have "no_pending_tasks ?p"
      by (simp add: no_pending_tasks_same_structure)
    then have "no_pending_tasks ?s1"
      unfolding no_pending_tasks_def st ld .
    then show ?thesis
      by (simp add: phase_master)
  qed
  show "t_phase (tasks (snd (dart__tasking__phase 0 s)) root_task) =
           t_phase (tasks s root_task) + 1"
    using sp by (simp add: phase_master same_structure_def)
qed

lemma phase_round_returns:
  assumes "master_idle s" and "no_pending_tasks s"
  shows "\<exists>r2 s2. dart__tasking__task_complete run_fn fuel 0 (snd (dart__tasking__phase 0 s)) =
                Some (r2, s2)"
proof -
  let ?s1 = "snd (dart__tasking__phase 0 s)"
  note i = phase_master_idle [OF assms(1)]
  from task_complete_admit_returns [OF i(2) [OF assms(2)], of 0 0] obtain a where
    "task_complete_admit 0 0 ?s1 = Some a"
    by blast
  then show ?thesis
    by (simp only: task_complete_root_idle [OF i(1)]) simp
qed

lemma phase_round_result:
  assumes "master_idle s"
    and "dart__tasking__task_complete run_fn fuel 0 (snd (dart__tasking__phase 0 s)) =
           Some (r2, s2)"
  shows "fst (dart__tasking__phase 0 s) = DART_OK \<and> r2 = DART_OK
       \<and> master_idle s2
       \<and> t_phase (tasks s2 root_task) = t_phase (tasks s root_task) + 1
       \<and> local_deps s2 = (\<lambda>_. [])"
proof -
  let ?s1 = "snd (dart__tasking__phase 0 s)"
  note i = phase_master_idle [OF assms(1)]
  from assms(2) obtain a where a: "task_complete_admit 0 0 ?s1 = Some a"
    and r: "r2 = DART_OK" "s2 = task_complete_cleanup a"
    by (simp only: task_complete_root_idle [OF i(1)]) (auto split: option.splits)
  note sa = task_complete_admit_same_structure [OF a]
  with i(1) have ia: "master_idle a" by (simp add: master_idle_same_structure)
  have pha: "t_phase (tasks a root_task) = t_phase (tasks ?s1 root_task)"
    using sa by (simp add: same_structure_def)
  have ic: "master_idle (task_complete_cleanup a)"
    using ia by (simp add: master_idle_def task_complete_cleanup_fields)
  have phc: "t_phase (tasks (task_complete_cleanup a) root_task) =
      t_phase (tasks s root_task) + 1"
    by (simp only: task_complete_cleanup_fields pha i(3))
  from r ic phc show ?thesis
    by (simp add: task_complete_cleanup_fields phase_master)
qed

lemma unat_add_of_nat_64:
  "unat (a :: 64 word) + n < 2 ^ 64 \<Longrightarrow> unat (a + of_nat n) = unat a + n"
  by (simp add: unat_word_ariths unat_of_nat mod_add_right_eq)

lemma phase_rounds_Suc:
  "phase_rounds run_fn fuel (Suc n) s =
     (case dart__tasking__task_complete run_fn fuel 0 (snd (dart__tasking__phase 0 s)) of
        None \<Rightarrow> None
      | Some (r2, s2) \<Rightarrow>
          (case phase_rounds run_fn fuel n s2 of
             None \<Rightarrow> None
           | Some (rs, s3) \<Rightarrow> Some ((fst (dart__tasking__phase 0 s), r2) # rs, s3)))"
  by (simp add: split_beta Let_def del: dart__tasking__task_complete.simps)

lemma phase_rounds_returns:
  assumes "master_idle s" and "no_pending_tasks s"
  shows "\<exists>rs s'. phase_rounds run_fn fuel n s = Some (rs, s')"
  using assms
proof (induction n arbitrary: s)
  case 0
  show ?case by simp
next
  case (Suc n)
  from phase_round_returns [OF Suc.prems, of run_fn fuel] obtain r2 s2 where
    tc: "dart__tasking__task_complete run_fn fuel 0 (snd (dart__tasking__phase 0 s)) =
           Some (r2, s2)"
    by blast
  from phase_round_result [OF Suc.prems(1) tc] have "master_idle s2" "no_pending_tasks s2"
    by (simp_all add: no_pending_tasks_empty)
  from Suc.IH [OF this] obtain rs s' where "phase_rounds run_fn fuel n s2 = Some (rs, s')"
    by blast
  with tc have "phase_rounds run_fn fuel (Suc n) s =
      Some ((fst (dart__tasking__phase 0 s), r2) # rs, s')"
    by (simp only: phase_rounds_Suc option.case prod.case)
  then show ?case
    by blast
qed

lemma phase_rounds_result:
  assumes "master_idle s" and "phase_rounds run_fn fuel n s = Some (rs, s')"
  shows "rs = replicate n (DART_OK, DART_OK)
       \<and> t_phase (tasks s' root_task) = t_phase (tasks s root_task) + of_nat n
       \<and> (0 < n \<longrightarrow> local_deps s' = (\<lambda>_. []))
       \<and> (n = 0 \<longrightarrow> s' = s)"
  using assms
proof (induction n arbitrary: s rs)
  case 0
  then show ?case by simp
next
  case (Suc n)
  from Suc.prems(2) obtain r2 s2 rs' where
    tc: "dart__tasking__task_complete run_fn fuel 0 (snd (dart__tasking__phase 0 s)) =
           Some (r2, s2)"
    and r: "phase_rounds run_fn fuel n s2 = Some (rs', s')"
    and rs: "rs = (fst (dart__tasking__phase 0 s), r2) # rs'"
    by (simp only: phase_rounds_Suc) (auto split: option.splits)
  note a = phase_round_result [OF Suc.prems(1) tc]
  from a have idle: "master_idle s2" by simp
  note b = Suc.IH [OF idle r]
  have "local_deps s' = (\<lambda>_. [])"
    using a b by (cases n) auto
  with a b rs show ?case
    by simp
qed

text \<open>Claim C9. From a state in which the master thread is in the root task and the root
  has no children, \<open>n\<close> rounds of \<open>phase\<close> followed by \<open>task_complete\<close> return \<open>OK\<close> from
  every call, whatever the fuel and the task functions. Afterwards every bucket of the
  hash is empty (for \<open>n = 0\<close>: if it was before), and the phase of the root is its old
  value plus \<open>n\<close> in 64-bit arithmetic, which is the exact sum unless the counter wraps.
  The rounds return when no task is pending, that is when no record of the hash belongs to
  a task that is created or running; this is what every round that returns leaves
  behind.\<close>

theorem phase_rounds_root_phase:
  assumes idle: "master_idle s"
  shows "(no_pending_tasks s \<longrightarrow> (\<exists>rs s'. phase_rounds run_fn fuel n s = Some (rs, s')))
       \<and> (\<forall>rs s'. phase_rounds run_fn fuel n s = Some (rs, s') \<longrightarrow>
            rs = replicate n (DART_OK, DART_OK)
          \<and> t_phase (tasks s' root_task) = t_phase (tasks s root_task) + of_nat n
          \<and> (unat (t_phase (tasks s root_task)) + n < 2 ^ 64 \<longrightarrow>
               unat (t_phase (tasks s' root_task)) = unat (t_phase (tasks s root_task)) + n)
          \<and> (0 < n \<or> (\<forall>slot. local_deps s slot = []) \<longrightarrow> (\<forall>slot. local_deps s' slot = [])))"
proof (intro conjI allI impI)
  assume "no_pending_tasks s"
  with idle show "\<exists>rs s'. phase_rounds run_fn fuel n s = Some (rs, s')"
    by (rule phase_rounds_returns)
next
  fix rs s'
  assume r: "phase_rounds run_fn fuel n s = Some (rs, s')"
  note a = phase_rounds_result [OF idle r]
  from a show "rs = replicate n (DART_OK, DART_OK)" by simp
  from a show ph: "t_phase (tasks s' root_task) = t_phase (tasks s root_task) + of_nat n"
    by simp
  show "unat (t_phase (tasks s' root_task)) = unat (t_phase (tasks s root_task)) + n"
    if "unat (t_phase (tasks s root_task)) + n < 2 ^ 64"
    using that by (simp add: ph unat_add_of_nat_64)
  show "local_deps s' slot = []" if "0 < n \<or> (\<forall>slot. local_deps s slot = [])" for slot
    using a that by (cases n) auto
qed

theorem phase_rounds_root_phase_witness:
  "master_idle ex_quiet_state \<and> no_pending_tasks ex_quiet_state
   \<and> local_deps ex_quiet_state 1 = [ex_write]
   \<and> (\<exists>s'. phase_rounds (\<lambda>fn data tid s. Some s) 0 3 ex_quiet_state =
              Some ([(DART_OK, DART_OK), (DART_OK, DART_OK), (DART_OK, DART_OK)], s')
           \<and> t_phase (tasks s' root_task) = 3
           \<and> local_deps s' 1 = [])"
proof -
  have i: "master_idle ex_quiet_state"
    by (simp add: master_idle_def ex_quiet_state_def ex_idle_state_def ex_state_def
        static_state_def static_root_task_def root_task_def dart_thread_init_def)
  have n: "no_pending_tasks ex_quiet_state"
    by (simp add: no_pending_tasks_def ex_quiet_state_def ex_idle_state_def ex_state_def
        static_state_def static_root_task_def ex_write_def IS_ACTIVE_TASK_def)
  have p: "t_phase (tasks ex_quiet_state root_task) = 0"
    "local_deps ex_quiet_state 1 = [ex_write]"
    by (simp_all add: ex_quiet_state_def ex_idle_state_def ex_state_def static_state_def
        static_root_task_def root_task_def)
  note t = phase_rounds_root_phase [OF i, of "\<lambda>fn data tid s. Some s" 0 3]
  from t [THEN conjunct1, THEN mp, OF n] obtain rs s' where
    r: "phase_rounds (\<lambda>fn data tid s. Some s) 0 3 ex_quiet_state = Some (rs, s')"
    by blast
  note t2 = t [THEN conjunct2, THEN spec, THEN spec, THEN mp, OF r]
  from t2 have "rs = [(DART_OK, DART_OK), (DART_OK, DART_OK), (DART_OK, DART_OK)]"
    "t_phase (tasks s' root_task) = 3" "local_deps s' 1 = []"
    by (simp_all add: p numeral_3_eq_3)
  with r i n p show ?thesis
    by simp
qed


end
